theory Spec2Isabelle
  imports Complex_Main "HOL-Library.Sublist" "HOL-Library.Log_Nat"
begin

section \<open>Python values\<close>

text \<open>
  A Python \<open>str\<close> is a sequence of Unicode code points and \<open>len\<close> counts code points, so
  a string is a list of natural numbers here; \<open>str\<close> embeds an ASCII literal.
  Python's \<open>int\<close> is \<open>int\<close> (or \<open>nat\<close> for a \<open>len\<close>). A Python \<open>float\<close> is the rational
  number that the double holds, and every floating-point operation rounds its exact result
  to the nearest double (\<open>fl\<close> below).
\<close>

type_synonym codepoint = nat
type_synonym pystr = "codepoint list"

definition str :: "string \<Rightarrow> pystr" where
  "str s = map of_char s"

text \<open>The decimal digits of a number, as an f-string writes \<open>{n}\<close>.\<close>

fun str_of_nat :: "nat \<Rightarrow> pystr" where
  "str_of_nat n = (if n < 10 then [48 + n] else str_of_nat (n div 10) @ [48 + n mod 10])"

declare str_of_nat.simps [simp del]

definition str_of_int :: "int \<Rightarrow> pystr" where
  "str_of_int i = (if i < 0 then str ''-'' @ str_of_nat (nat (- i)) else str_of_nat (nat i))"

text \<open>
  \<open>round2 x\<close> is the multiple of 1/100 nearest to \<open>x\<close>, a tie going to the even one.
\<close>

definition round_half_even :: "rat \<Rightarrow> int" where
  "round_half_even x =
     (let f = \<lfloor>x\<rfloor>; d = x - of_int f
      in if d < 1 / 2 then f else if 1 / 2 < d then f + 1 else if even f then f else f + 1)"

definition round2 :: "rat \<Rightarrow> rat" where
  "round2 x = of_int (round_half_even (x * 100)) / 100"

text \<open>
  Doubles. \<open>binade x\<close> is the exponent \<open>e\<close> with \<open>2^e \<le> |x| < 2^(e+1)\<close>, and \<open>fl x\<close> is
  the double nearest to \<open>x\<close>: \<open>x\<close> rounded to a multiple of \<open>2^(e-52)\<close>, which leaves 53
  significant bits, a tie going to the even multiple. The exponent is not bounded: no
  number below comes near the largest or the smallest double.
\<close>

definition binade :: "rat \<Rightarrow> int" where
  "binade x =
     (let (p, q) = quotient_of \<bar>x\<bar>;
          k = bitlen p - bitlen q
      in if 2 powi k \<le> \<bar>x\<bar> then k else k - 1)"

definition fl :: "rat \<Rightarrow> rat" where
  "fl x =
     (if x = 0 then 0
      else let u = 2 powi (binade x - 52)
           in of_int (round_half_even (x / u)) * u)"

text \<open>
  The operations on floats: the sum, difference, product and quotient of two floats, the
  float of an \<open>int\<close> (in \<open>int * float\<close>), and the true division \<open>int / int\<close>, which Python
  rounds once from the exact quotient.
\<close>

definition fadd :: "rat \<Rightarrow> rat \<Rightarrow> rat" where
  "fadd a b = fl (a + b)"

definition fsub :: "rat \<Rightarrow> rat \<Rightarrow> rat" where
  "fsub a b = fl (a - b)"

definition fmul :: "rat \<Rightarrow> rat \<Rightarrow> rat" where
  "fmul a b = fl (a * b)"

definition float_of_int :: "int \<Rightarrow> rat" where
  "float_of_int i = fl (of_int i)"

definition int_div :: "int \<Rightarrow> int \<Rightarrow> rat" where
  "int_div a b = fl (of_int a / of_int b)"

text \<open>
  \<open>round(x, 2)\<close> of a float \<open>x\<close>: Python rounds the exact value that the double holds to
  two decimals, a tie going to the even digit, and returns the double nearest to the
  result. (\<open>round(n, 2)\<close> of an \<open>int\<close> is \<open>n\<close> itself.)
\<close>

definition py_round2 :: "rat \<Rightarrow> rat" where
  "py_round2 x = fl (round2 x)"

text \<open>
  A dict is an association list read as a sequence of insertions: \<open>dict_keys\<close> lists each
  key once, in the order of first insertion, and \<open>dict_len\<close> is \<open>len\<close>.
\<close>

fun dict_keys :: "('k \<times> 'v) list \<Rightarrow> 'k list" where
  "dict_keys [] = []"
| "dict_keys ((k, v) # d) = k # filter (\<lambda>k'. k' \<noteq> k) (dict_keys d)"

definition dict_len :: "('k \<times> 'v) list \<Rightarrow> nat" where
  "dict_len d = length (dict_keys d)"

text \<open>
  An instant (a \<open>datetime\<close>) is its number of microseconds since the epoch, and
  \<open>(a - b).days\<close> is the floor of the difference in days, as \<open>timedelta\<close> normalises it.
\<close>

type_synonym instant = int

definition timedelta_days :: "instant \<Rightarrow> instant \<Rightarrow> int" where
  "timedelta_days a b = (a - b) div 86400000000"

section \<open>Regular expressions of the analyzer\<close>

text \<open>
  \<open>re.search\<close> asks whether the pattern matches at some position of the text. A pattern is
  a predicate on the rest of the text, built from literals, alternatives and \<open>.*\<close> in
  continuation style.

  Under \<open>re.I\<close> a lower-case ASCII letter of the pattern matches itself, its upper-case
  letter, and for \<open>i\<close>, \<open>s\<close> and \<open>k\<close> the code points U+0130, U+0131, U+017F and U+212A;
  any other pattern character (here: the space) matches only itself.
\<close>

definition ci_eq :: "codepoint \<Rightarrow> codepoint \<Rightarrow> bool" where
  "ci_eq p c =
     (c = p \<or> (97 \<le> p \<and> p \<le> 122 \<and> c + 32 = p)
      \<or> (p = 105 \<and> (c = 304 \<or> c = 305))
      \<or> (p = 115 \<and> c = 383)
      \<or> (p = 107 \<and> c = 8490))"

fun lit_ci :: "pystr \<Rightarrow> pystr \<Rightarrow> bool" where
  "lit_ci [] s = True"
| "lit_ci (p # ps) [] = False"
| "lit_ci (p # ps) (c # cs) = (ci_eq p c \<and> lit_ci ps cs)"

fun lit :: "pystr \<Rightarrow> (pystr \<Rightarrow> bool) \<Rightarrow> pystr \<Rightarrow> bool" where
  "lit [] k s = k s"
| "lit (p # ps) k [] = False"
| "lit (p # ps) k (c # cs) = (p = c \<and> lit ps k cs)"

text \<open>\<open>.*\<close> followed by \<open>k\<close>: the dot matches any code point but the newline (no DOTALL).\<close>

fun dot_star :: "(pystr \<Rightarrow> bool) \<Rightarrow> pystr \<Rightarrow> bool" where
  "dot_star k [] = k []"
| "dot_star k (c # cs) = (k (c # cs) \<or> (c \<noteq> 10 \<and> dot_star k cs))"

fun re_search :: "(pystr \<Rightarrow> bool) \<Rightarrow> pystr \<Rightarrow> bool" where
  "re_search m [] = m []"
| "re_search m (c # cs) = (m (c # cs) \<or> re_search m cs)"

text \<open>\<open>r"(install|setup|getting started)"\<close>, \<open>re.I\<close>\<close>

definition setup_re :: "pystr \<Rightarrow> bool" where
  "setup_re s =
     (lit_ci (str ''install'') s \<or> lit_ci (str ''setup'') s \<or> lit_ci (str ''getting started'') s)"

text \<open>\<open>r"(example|usage|demo)"\<close>, \<open>re.I\<close>\<close>

definition examples_re :: "pystr \<Rightarrow> bool" where
  "examples_re s =
     (lit_ci (str ''example'') s \<or> lit_ci (str ''usage'') s \<or> lit_ci (str ''demo'') s)"

text \<open>\<open>r"!\[.*\]\(.*\)"\<close>, case-sensitive\<close>

definition badges_re :: "pystr \<Rightarrow> bool" where
  "badges_re =
     lit (str ''!['') (dot_star (lit (str '']('') (dot_star (lit (str '')'') (\<lambda>s. True)))))"

text \<open>\<open>r"(api|endpoint|route)"\<close>, \<open>re.I\<close>\<close>

definition api_re :: "pystr \<Rightarrow> bool" where
  "api_re s =
     (lit_ci (str ''api'') s \<or> lit_ci (str ''endpoint'') s \<or> lit_ci (str ''route'') s)"

section \<open>Configuration\<close>

definition ACTIVE_DAYS_THRESHOLD :: int where
  "ACTIVE_DAYS_THRESHOLD = 30"

record scoring_weights =
  documentation :: rat
  code_quality :: rat
  consistency :: rat
  impact :: rat
  depth :: rat

text \<open>The weights are the doubles that the literals 0.25, 0.20 and 0.10 denote.\<close>

definition SCORING_WEIGHTS :: scoring_weights where
  "SCORING_WEIGHTS =
     \<lparr>documentation = fl (25 / 100), code_quality = fl (25 / 100),
      consistency = fl (20 / 100), impact = fl (20 / 100), depth = fl (10 / 100)\<rparr>"

section \<open>Data model\<close>

text \<open>
  The dicts of the source are records, one field for each key; a field of type \<open>option\<close> that
  is \<open>None\<close> stands for a key that the dict does not have, unless said otherwise.
  The type names are those of the specification's data model, the field names are the keys.
\<close>

text \<open>A repository as the hosting API returns it (the keys the analyzer reads; \<open>repo_size\<close> is the key \<open>size\<close>).\<close>

record RawRepository =
  name :: pystr
  full_name :: pystr
  description :: "pystr option"
  html_url :: pystr
  stargazers_count :: int
  forks_count :: int
  open_issues_count :: int
  created_at :: pystr
  updated_at :: pystr
  language :: "pystr option"
  repo_size :: int
  has_issues :: bool
  has_projects :: bool
  has_wiki :: bool

text \<open>
  A commit of the list the API returns: \<open>date\<close> is \<open>commit["commit"]["committer"]["date"]\<close>,
  an ISO-8601 string in the source, represented by the instant that
  \<open>datetime.fromisoformat\<close> reads from it.
\<close>

record CommitRecord =
  date :: instant

record DocumentationAnalysis =
  has_readme :: bool
  readme_length :: nat
  has_setup_instructions :: bool
  has_examples :: bool
  has_badges :: bool
  has_api_documentation :: "bool option"
  quality_score :: int

record CodeStructureAnalysis =
  primary_language :: "pystr option"
  languages_used :: "pystr list"
  language_diversity :: nat
  has_multiple_languages :: bool
  size_kb :: int
  has_issues_enabled :: bool
  has_projects_enabled :: bool
  has_wiki_enabled :: bool

text \<open>
  \<open>last_commit_date\<close> is always a key of the dict, with the value \<open>None\<close> when there is no
  commit; \<open>days_since_last_commit\<close> is a key only when there is a commit.
\<close>

record ActivityAnalysis =
  total_commits_recent :: nat
  commit_frequency :: rat
  last_commit_date :: "instant option"
  days_since_last_commit :: "int option"
  is_active :: bool
  activity_score :: int

record RepoScore =
  overall :: rat
  documentation :: int
  code_quality :: int
  activity :: int
  popularity :: int
  grade :: pystr

record AnalyzedRepository =
  name :: pystr
  full_name :: pystr
  description :: "pystr option"
  url :: pystr
  stars :: int
  forks :: int
  open_issues :: int
  created_at :: pystr
  updated_at :: pystr
  languages :: "(pystr \<times> int) list"
  documentation_analysis :: DocumentationAnalysis
  code_analysis :: CodeStructureAnalysis
  activity_analysis :: ActivityAnalysis
  score :: RepoScore
  strengths :: "pystr list"
  weaknesses :: "pystr list"

text \<open>
  The user record: of its keys the scoring reads \<open>recent_activity\<close> only, which
  \<open>get_user_profile\<close> sets to \<open>len(events)\<close>.
\<close>

record UserRecord =
  login :: pystr
  recent_activity :: nat

record Components =
  documentation :: rat
  code_quality :: rat
  consistency :: rat
  impact :: rat
  depth :: rat

record PortfolioScore =
  overall :: rat
  components :: Components
  grade :: pystr
  red_flags :: "pystr list"
  strengths :: "pystr list"

record HireDecision =
  decision :: pystr
  confidence :: pystr
  reasoning :: pystr
  score :: rat
  grade :: pystr

record ImpactEstimate =
  current_score :: rat
  potential_score :: rat
  improvement :: rat
  timeframe :: pystr

section \<open>Repository Analyzer (analyzer\_service.py)\<close>

definition AnalyzerService_get_grade :: "rat \<Rightarrow> pystr" where
  "AnalyzerService_get_grade s =
     (if 90 \<le> s then str ''A''
      else if 80 \<le> s then str ''B''
      else if 70 \<le> s then str ''C''
      else if 60 \<le> s then str ''D''
      else str ''F'')"

definition analyze_documentation :: "pystr \<Rightarrow> RawRepository \<Rightarrow> DocumentationAnalysis" where
  "analyze_documentation readme_content repo_data =
     (if readme_content = [] then
        \<lparr>has_readme = False, readme_length = 0, has_setup_instructions = False,
         has_examples = False, has_badges = False, has_api_documentation = None,
         quality_score = 0\<rparr>
      else
        let has_setup' = re_search setup_re readme_content;
            has_examples' = re_search examples_re readme_content;
            has_badges' = re_search badges_re readme_content;
            has_api_docs' = re_search api_re readme_content;
            q = 0;
            q = (if 500 < length readme_content then q + 30
                 else if 200 < length readme_content then q + 15 else q);
            q = (if has_setup' then q + 20 else q);
            q = (if has_examples' then q + 20 else q);
            q = (if has_badges' then q + 15 else q);
            q = (if has_api_docs' then q + 15 else q)
        in \<lparr>has_readme = True, readme_length = length readme_content,
            has_setup_instructions = has_setup', has_examples = has_examples',
            has_badges = has_badges', has_api_documentation = Some has_api_docs',
            quality_score = min q 100\<rparr>)"

definition analyze_code_structure ::
    "RawRepository \<Rightarrow> (pystr \<times> int) list \<Rightarrow> CodeStructureAnalysis" where
  "analyze_code_structure repo_data langs =
     \<lparr>primary_language = language repo_data,
      languages_used = dict_keys langs,
      language_diversity = dict_len langs,
      has_multiple_languages = (1 < dict_len langs),
      size_kb = repo_size repo_data,
      has_issues_enabled = has_issues repo_data,
      has_projects_enabled = has_projects repo_data,
      has_wiki_enabled = has_wiki repo_data\<rparr>"

text \<open>
  The current time, \<open>datetime.now(timezone.utc)\<close> in the source, is the argument \<open>now\<close>.
  The local variable \<open>commit_frequency\<close> is the float \<open>len(commits) / days_diff\<close> when
  there are several commits over a positive number of days, and the \<open>int\<close>
  \<open>len(commits)\<close> or 1 otherwise, which \<open>round\<close> returns as it is.
\<close>

definition analyze_activity ::
    "instant \<Rightarrow> CommitRecord list \<Rightarrow> RawRepository \<Rightarrow> ActivityAnalysis" where
  "analyze_activity now commits repo_data =
     (if commits = [] then
        \<lparr>total_commits_recent = 0, commit_frequency = 0, last_commit_date = None,
         days_since_last_commit = None, is_active = False, activity_score = 0\<rparr>
      else
        let commit_dates = map date commits;
            is_float =
              (1 < length commit_dates
               \<and> 0 < timedelta_days (hd commit_dates) (last commit_dates));
            freq =
              (if 1 < length commit_dates then
                 let first_date = last commit_dates;
                     last_date = hd commit_dates;
                     days_diff = timedelta_days last_date first_date
                 in if 0 < days_diff then int_div (int (length commits)) days_diff
                    else of_nat (length commits)
               else 1);
            last_commit = hd commit_dates;
            days_since = timedelta_days now last_commit;
            active = (days_since < ACTIVE_DAYS_THRESHOLD);
            a = 0;
            a = (if active then a + 40 else a);
            a = (if fl (5 / 10) < freq then a + 30
                 else if fl (1 / 10) < freq then a + 15 else a);
            a = a + min (int (length commits)) 30
        in \<lparr>total_commits_recent = length commits,
            commit_frequency = (if is_float then py_round2 freq else freq),
            last_commit_date = Some (hd commit_dates),
            days_since_last_commit = Some days_since, is_active = active,
            activity_score = min a 100\<rparr>)"

text \<open>
  The source adds the four weighted scores as floats. The scores are integers, so the
  exact sum is a multiple of 1/20; the definition takes the exact sum and its rounding to
  two decimals.
\<close>

definition calculate_repo_score ::
    "DocumentationAnalysis \<Rightarrow> CodeStructureAnalysis \<Rightarrow> ActivityAnalysis \<Rightarrow> RawRepository
     \<Rightarrow> RepoScore" where
  "calculate_repo_score doc_analysis code_an activity_an repo_data =
     (let doc_weight = 35 / 100;
          code_weight = 25 / 100;
          activity_weight = 25 / 100;
          popularity_weight = 15 / 100;
          doc_score = quality_score doc_analysis;
          act_score = activity_score activity_an;
          code_score = 50;
          code_score = (if has_multiple_languages code_an then code_score + 20 else code_score);
          code_score = (if has_wiki_enabled code_an then code_score + 15 else code_score);
          code_score = min code_score 100;
          stars' = stargazers_count repo_data;
          forks' = forks_count repo_data;
          popularity_score = min (stars' * 2 + forks' * 3) 100;
          ov = of_int doc_score * doc_weight + of_int code_score * code_weight
               + of_int act_score * activity_weight + of_int popularity_score * popularity_weight
      in \<lparr>RepoScore.overall = round2 ov, RepoScore.documentation = doc_score,
          RepoScore.code_quality = code_score, activity = act_score,
          popularity = popularity_score, RepoScore.grade = AnalyzerService_get_grade ov\<rparr>)"

text \<open>\<open>repo_data.get("language")\<close> as a condition: neither \<open>None\<close> nor the empty string.\<close>

definition truthy_str :: "pystr option \<Rightarrow> bool" where
  "truthy_str v = (case v of None \<Rightarrow> False | Some s \<Rightarrow> s \<noteq> [])"

definition identify_strengths ::
    "RawRepository \<Rightarrow> DocumentationAnalysis \<Rightarrow> ActivityAnalysis \<Rightarrow> pystr list" where
  "identify_strengths repo_data doc_analysis activity_an =
     (let out = [];
          out = (if 70 < quality_score doc_analysis then out @ [str ''Excellent documentation'']
                 else if has_readme doc_analysis then out @ [str ''Has README'']
                 else out);
          out = (if 10 < stargazers_count repo_data
                 then out @ [str ''Popular ('' @ str_of_int (stargazers_count repo_data)
                             @ str '' stars)'']
                 else out);
          out = (if is_active activity_an then out @ [str ''Actively maintained''] else out);
          out = (if truthy_str (language repo_data)
                 then out @ [str ''Built with '' @ the (language repo_data)]
                 else out)
      in take 3 out)"

definition identify_weaknesses ::
    "RawRepository \<Rightarrow> DocumentationAnalysis \<Rightarrow> ActivityAnalysis \<Rightarrow> pystr list" where
  "identify_weaknesses repo_data doc_analysis activity_an =
     (let out = [];
          out = (if \<not> has_readme doc_analysis then out @ [str ''Missing README'']
                 else if readme_length doc_analysis < 100 then out @ [str ''README too brief'']
                 else out);
          out = (if \<not> has_setup_instructions doc_analysis
                 then out @ [str ''No setup instructions''] else out);
          out = (if \<not> is_active activity_an then out @ [str ''Inactive repository''] else out);
          out = (if total_commits_recent activity_an < 5
                 then out @ [str ''Low commit activity''] else out)
      in take 3 out)"

text \<open>
  \<open>analyze_repository\<close> fetches the README, the languages and the commits of the repository
  from the hosting API and reads the clock; here they are arguments.
\<close>

definition analyze_repository ::
    "instant \<Rightarrow> RawRepository \<Rightarrow> pystr \<Rightarrow> (pystr \<times> int) list \<Rightarrow> CommitRecord list
     \<Rightarrow> AnalyzedRepository" where
  "analyze_repository now repo_data readme_content langs commits =
     (let doc_analysis = analyze_documentation readme_content repo_data;
          code_an = analyze_code_structure repo_data langs;
          activity_an = analyze_activity now commits repo_data;
          repo_score = calculate_repo_score doc_analysis code_an activity_an repo_data
      in \<lparr>AnalyzedRepository.name = RawRepository.name repo_data,
          AnalyzedRepository.full_name = RawRepository.full_name repo_data,
          AnalyzedRepository.description = RawRepository.description repo_data,
          url = html_url repo_data,
          stars = stargazers_count repo_data,
          forks = forks_count repo_data,
          open_issues = open_issues_count repo_data,
          AnalyzedRepository.created_at = RawRepository.created_at repo_data,
          AnalyzedRepository.updated_at = RawRepository.updated_at repo_data,
          languages = langs,
          documentation_analysis = doc_analysis,
          code_analysis = code_an,
          activity_analysis = activity_an,
          AnalyzedRepository.score = repo_score,
          AnalyzedRepository.strengths = identify_strengths repo_data doc_analysis activity_an,
          weaknesses = identify_weaknesses repo_data doc_analysis activity_an\<rparr>)"

section \<open>Portfolio Score Calculator (score\_calculator.py)\<close>

definition calculate_documentation_score :: "AnalyzedRepository list \<Rightarrow> rat" where
  "calculate_documentation_score repositories =
     (if repositories = [] then 0
      else
        let total_doc_score =
              fold (\<lambda>repo total. total + quality_score (documentation_analysis repo))
                repositories 0
        in int_div total_doc_score (int (length repositories)))"

definition calculate_code_quality_score :: "AnalyzedRepository list \<Rightarrow> rat" where
  "calculate_code_quality_score repositories =
     (if repositories = [] then 0
      else
        let total_code_score =
              fold (\<lambda>repo total. total + RepoScore.code_quality (AnalyzedRepository.score repo))
                repositories 0
        in int_div total_code_score (int (length repositories)))"

definition calculate_consistency_score :: "AnalyzedRepository list \<Rightarrow> UserRecord \<Rightarrow> rat" where
  "calculate_consistency_score repositories user_data =
     (if repositories = [] then 0
      else
        let active_repos = length (filter (\<lambda>repo. is_active (activity_analysis repo)) repositories);
            activity_ratio = int_div (int active_repos) (int (length repositories));
            recent = recent_activity user_data;
            activity_bonus = fmul (int_div (int (min recent 50)) 50) 20;
            sc = fadd (fmul activity_ratio 80) activity_bonus
        in min sc 100)"

text \<open>The impact and the depth are \<open>int\<close>s in the source.\<close>

definition calculate_impact_score :: "AnalyzedRepository list \<Rightarrow> int" where
  "calculate_impact_score repositories =
     (if repositories = [] then 0
      else
        let total_stars = sum_list (map stars repositories);
            total_forks = sum_list (map forks repositories);
            impact_score = min (total_stars * 2 + total_forks * 3) 100
        in impact_score)"

text \<open>The set that the loop \<open>all_languages.update(languages.keys())\<close> builds.\<close>

definition all_languages :: "AnalyzedRepository list \<Rightarrow> pystr set" where
  "all_languages repositories =
     fold (\<lambda>repo acc. acc \<union> set (dict_keys (languages repo))) repositories {}"

definition calculate_technical_depth_score :: "AnalyzedRepository list \<Rightarrow> int" where
  "calculate_technical_depth_score repositories =
     (if repositories = [] then 0
      else
        let language_count = card (all_languages repositories)
        in if 5 \<le> language_count then 100
           else if 3 \<le> language_count then 80
           else if 2 \<le> language_count then 60
           else if 1 \<le> language_count then 40
           else 20)"

definition identify_red_flags :: "AnalyzedRepository list \<Rightarrow> pystr list" where
  "identify_red_flags repositories =
     (let flags = []
      in if repositories = [] then flags @ [str ''No public repositories'']
         else
           let inactive_repos =
                 length (filter (\<lambda>repo. \<not> is_active (activity_analysis repo)) repositories);
               flags = (if inactive_repos = length repositories
                        then flags @ [str ''All repositories are inactive''] else flags);
               repos_without_readme =
                 length (filter (\<lambda>repo. \<not> has_readme (documentation_analysis repo)) repositories);
               flags = (if int_div (int (length repositories)) 2 < of_nat repos_without_readme
                        then flags @ [str ''Most repositories missing README files'']
                        else flags);
               total_stars = sum_list (map stars repositories);
               flags = (if total_stars = 0
                        then flags @ [str ''No stars on any repositories''] else flags)
           in flags)"

definition identify_portfolio_strengths :: "AnalyzedRepository list \<Rightarrow> pystr list" where
  "identify_portfolio_strengths repositories =
     (let out = [];
          out = (if 5 \<le> length repositories
                 then out @ [str ''Strong portfolio with '' @ str_of_nat (length repositories)
                             @ str '' repositories'']
                 else out);
          well_documented =
            length (filter (\<lambda>repo. 70 < quality_score (documentation_analysis repo)) repositories);
          out = (if 3 \<le> well_documented
                 then out @ [str ''Multiple well-documented projects''] else out);
          langs = all_languages repositories;
          out = (if 3 \<le> card langs
                 then out @ [str ''Demonstrates proficiency in '' @ str_of_nat (card langs)
                             @ str '' programming languages'']
                 else out)
      in take 3 out)"

definition ScoreCalculator_get_grade :: "rat \<Rightarrow> pystr" where
  "ScoreCalculator_get_grade s =
     (if 90 \<le> s then str ''A''
      else if 80 \<le> s then str ''B''
      else if 70 \<le> s then str ''C''
      else if 60 \<le> s then str ''D''
      else str ''F'')"

text \<open>
  The weighted sum of the five component scores, the local variable \<open>overall\<close> of
  \<open>calculate_portfolio_score\<close> before it is rounded: five float products, added from the
  left.
\<close>

definition weighted_overall :: "UserRecord \<Rightarrow> AnalyzedRepository list \<Rightarrow> rat" where
  "weighted_overall user_data repositories =
     (let doc_score = calculate_documentation_score repositories;
          code_score = calculate_code_quality_score repositories;
          consistency_score = calculate_consistency_score repositories user_data;
          impact_score = calculate_impact_score repositories;
          depth_score = calculate_technical_depth_score repositories
      in fadd
           (fadd
              (fadd
                 (fadd (fmul doc_score (scoring_weights.documentation SCORING_WEIGHTS))
                       (fmul code_score (scoring_weights.code_quality SCORING_WEIGHTS)))
                 (fmul consistency_score (scoring_weights.consistency SCORING_WEIGHTS)))
              (fmul (float_of_int impact_score) (scoring_weights.impact SCORING_WEIGHTS)))
           (fmul (float_of_int depth_score) (scoring_weights.depth SCORING_WEIGHTS)))"

definition calculate_portfolio_score ::
    "UserRecord \<Rightarrow> AnalyzedRepository list \<Rightarrow> PortfolioScore" where
  "calculate_portfolio_score user_data repositories =
     (let doc_score = calculate_documentation_score repositories;
          code_score = calculate_code_quality_score repositories;
          consistency_score = calculate_consistency_score repositories user_data;
          impact_score = calculate_impact_score repositories;
          depth_score = calculate_technical_depth_score repositories;
          ov = weighted_overall user_data repositories
      in \<lparr>PortfolioScore.overall = py_round2 ov,
          components =
            \<lparr>Components.documentation = py_round2 doc_score,
             Components.code_quality = py_round2 code_score,
             Components.consistency = py_round2 consistency_score,
             Components.impact = of_int impact_score,
             Components.depth = of_int depth_score\<rparr>,
          PortfolioScore.grade = ScoreCalculator_get_grade ov,
          red_flags = identify_red_flags repositories,
          PortfolioScore.strengths = identify_portfolio_strengths repositories\<rparr>)"

section \<open>Recruiter Narrative Generator (recruiter\_simulator.py)\<close>

definition determine_hire_decision :: "PortfolioScore \<Rightarrow> HireDecision" where
  "determine_hire_decision portfolio_score =
     (let overall_score = PortfolioScore.overall portfolio_score;
          gr = PortfolioScore.grade portfolio_score
      in if 80 \<le> overall_score then
           \<lparr>decision = str ''HIRE'', confidence = str ''High'',
            reasoning =
              str ''Strong portfolio with excellent documentation and consistent activity'',
            score = overall_score, grade = gr\<rparr>
         else if 60 \<le> overall_score then
           \<lparr>decision = str ''MAYBE'', confidence = str ''Medium'',
            reasoning = str ''Decent portfolio but needs improvement in key areas'',
            score = overall_score, grade = gr\<rparr>
         else
           \<lparr>decision = str ''REJECT'',
            confidence = (if overall_score < 40 then str ''High'' else str ''Medium''),
            reasoning = str ''Portfolio lacks critical elements expected from candidates'',
            score = overall_score, grade = gr\<rparr>)"

section \<open>Roadmap Generator (roadmap\_generator.py)\<close>

definition estimate_impact :: "PortfolioScore \<Rightarrow> ImpactEstimate" where
  "estimate_impact portfolio_score =
     (let current = PortfolioScore.overall portfolio_score;
          potential =
            (if current < 50 then min (fadd current 30) 100
             else if current < 70 then min (fadd current 20) 100
             else min (fadd current 10) 100)
      in \<lparr>current_score = current, potential_score = potential,
          improvement = py_round2 (fsub potential current),
          timeframe = str ''3 months with consistent effort''\<rparr>)"

section \<open>The analysis loop (routes.py)\<close>

text \<open>
  \<open>analyze_github_profile\<close> analyzes the repositories one after the other and hands the
  list to the calculator. An input is a repository with what the analyzer fetches for it
  and the time at which it is analyzed.
\<close>

type_synonym analyzer_input =
  "instant \<times> RawRepository \<times> pystr \<times> (pystr \<times> int) list \<times> CommitRecord list"

definition analyze_repositories :: "analyzer_input list \<Rightarrow> AnalyzedRepository list" where
  "analyze_repositories inputs =
     map (\<lambda>(now, repo_data, readme_content, langs, commits).
            analyze_repository now repo_data readme_content langs commits) inputs"

section \<open>Step functions as the specification words them\<close>

text \<open>
  The depth of a portfolio in the specification's words: a step function of the number of
  distinct languages, to be compared with \<open>calculate_technical_depth_score\<close>.
\<close>

definition depth_step_spec :: "nat \<Rightarrow> rat" where
  "depth_step_spec n =
     (if 5 \<le> n then 100 else if 3 \<le> n then 80 else if 2 \<le> n then 60
      else if 1 \<le> n then 40 else 20)"

text \<open>
  The commit frequency in the specification's words: the number of commits divided by the
  number of days between the oldest and the newest commit, and the number of commits
  itself when that span is 0 days; to be compared with what \<open>analyze_activity\<close> reports.
\<close>

text \<open>
  A keyword matching case-insensitively: the keyword, written in lower case, occurs in the
  text once every letter of the text is folded to lower case. Besides the ASCII capitals,
  Python folds the dotted capital I and the dotless i (U+0130, U+0131) to \<open>i\<close>, the long s
  (U+017F) to \<open>s\<close> and the Kelvin sign (U+212A) to \<open>k\<close>.
\<close>

definition casefold :: "codepoint \<Rightarrow> codepoint" where
  "casefold c =
     (if 65 \<le> c \<and> c \<le> 90 then c + 32
      else if c = 304 \<or> c = 305 then 105
      else if c = 383 then 115
      else if c = 8490 then 107
      else c)"

definition keyword_occurs :: "string \<Rightarrow> pystr \<Rightarrow> bool" where
  "keyword_occurs kw text = sublist (str kw) (map casefold text)"

text \<open>
  A markdown image link written on one line: \<open>![\<close>, a description, \<open>](\<close>, a target and
  \<open>)\<close>, with no line break in the description or the target.
\<close>

definition image_link_on_one_line :: "pystr \<Rightarrow> bool" where
  "image_link_on_one_line text =
     (\<exists>ps alt link ss.
        text = ps @ str ''!['' @ alt @ str '']('' @ link @ str '')'' @ ss
        \<and> 10 \<notin> set alt \<and> 10 \<notin> set link)"

definition commit_frequency_spec :: "CommitRecord list \<Rightarrow> rat" where
  "commit_frequency_spec commits =
     (let span = timedelta_days (Max (set (map date commits))) (Min (set (map date commits)))
      in if span = 0 then of_nat (length commits)
         else of_nat (length commits) / of_int span)"

section \<open>Example inputs\<close>

text \<open>A repository record with the given name, stars, forks and wiki flag.\<close>

definition demo_repo :: "string \<Rightarrow> int \<Rightarrow> int \<Rightarrow> bool \<Rightarrow> RawRepository" where
  "demo_repo n s f w =
     \<lparr>RawRepository.name = str n, RawRepository.full_name = str ''octo/'' @ str n,
      RawRepository.description = None, html_url = str ''https://github.com/octo/'' @ str n,
      stargazers_count = s, forks_count = f, open_issues_count = 0,
      RawRepository.created_at = str ''2024-01-01T00:00:00Z'',
      RawRepository.updated_at = str ''2024-01-02T00:00:00Z'',
      language = None, repo_size = 1, has_issues = True, has_projects = True, has_wiki = w\<rparr>"

definition demo_user :: UserRecord where
  "demo_user = \<lparr>login = str ''octo'', recent_activity = 1\<rparr>"

definition busy_user :: UserRecord where
  "busy_user = \<lparr>login = str ''octo'', recent_activity = 4\<rparr>"

text \<open>A short README with a setup, a usage and an API keyword and an image link: 70 points.\<close>

definition short_readme :: pystr where
  "short_readme = str ''install usage api ![a](b)''"

text \<open>
  Three repositories, each with the short README and one commit a day before the analysis;
  the first has three languages, a wiki, one star and one fork, the others one language.
\<close>

definition boundary_inputs :: "analyzer_input list" where
  "boundary_inputs =
     [(86400000000, demo_repo ''one'' 1 1 True, short_readme,
       [(str ''Python'', 10), (str ''C'', 5), (str ''Go'', 1)], [\<lparr>date = 0\<rparr>]),
      (86400000000, demo_repo ''two'' 0 0 False, short_readme,
       [(str ''Rust'', 10)], [\<lparr>date = 0\<rparr>]),
      (86400000000, demo_repo ''three'' 0 0 False, short_readme,
       [(str ''Java'', 10)], [\<lparr>date = 0\<rparr>])]"

text \<open>
  A README of 600 code points with an "Installation" and a "Usage" heading and an image,
  padded with the letter x.
\<close>

definition long_readme :: pystr where
  "long_readme =
     str ''# Tool  ## Installation  pip install tool  ## Usage  tool run  ![logo](logo.png) ''
     @ replicate 519 120"

text \<open>
  The same README with a line break in the description of the image, and a README of
  five letters.
\<close>

definition multi_line_readme :: pystr where
  "multi_line_readme =
     str ''# Tool  ## Installation  pip install tool  ## Usage  tool run  ![logo''
     @ [10] @ str ''banner](logo.png) ''
     @ replicate 512 120"

definition plain_readme :: pystr where
  "plain_readme = str ''notes''"

text \<open>A repository record with a negative star count, and what the analyzer makes of it.\<close>

definition negative_inputs :: "analyzer_input list" where
  "negative_inputs =
     [(86400000000, demo_repo ''minus'' (- 1) 0 False, short_readme,
       [(str ''Python'', 10)], [\<lparr>date = 0\<rparr>])]"

text \<open>
  Commits at days 7, 3 and 0, listed newest first, and commits at days 5, 10 and 0, whose
  newest commit is not listed first.
\<close>

definition day :: "int \<Rightarrow> instant" where
  "day n = n * 86400000000"

definition week_commits :: "CommitRecord list" where
  "week_commits = [\<lparr>date = day 7\<rparr>, \<lparr>date = day 3\<rparr>, \<lparr>date = day 0\<rparr>]"

definition unordered_commits :: "CommitRecord list" where
  "unordered_commits = [\<lparr>date = day 5\<rparr>, \<lparr>date = day 10\<rparr>, \<lparr>date = day 0\<rparr>]"

text \<open>A portfolio score with the given overall score, all components equal to it.\<close>

definition demo_score :: "rat \<Rightarrow> PortfolioScore" where
  "demo_score x =
     \<lparr>PortfolioScore.overall = x,
      components =
        \<lparr>Components.documentation = x, Components.code_quality = x,
         Components.consistency = x, Components.impact = x, Components.depth = x\<rparr>,
      PortfolioScore.grade = ScoreCalculator_get_grade x,
      red_flags = [], PortfolioScore.strengths = []\<rparr>"

section \<open>Rounding to two decimals\<close>

lemma round_half_even_cases:
  "round_half_even x = \<lfloor>x\<rfloor> \<or> round_half_even x = \<lfloor>x\<rfloor> + 1"
  by (simp add: round_half_even_def Let_def)

lemma round_half_even_of_int: "round_half_even (of_int n) = n"
  by (simp add: round_half_even_def Let_def)

lemma round_half_even_ge: "of_int n \<le> x \<Longrightarrow> n \<le> round_half_even x"
proof -
  assume "of_int n \<le> x"
  then have "n \<le> \<lfloor>x\<rfloor>" by (simp add: le_floor_iff)
  with round_half_even_cases [of x] show ?thesis by auto
qed

lemma round_half_even_le: "x \<le> of_int n \<Longrightarrow> round_half_even x \<le> n"
proof (cases "x = of_int n")
  case True
  then show ?thesis by (simp add: round_half_even_of_int)
next
  case False
  assume "x \<le> of_int n"
  with False have "x < of_int n" by simp
  then have "\<lfloor>x\<rfloor> < n" by (simp add: floor_less_iff)
  with round_half_even_cases [of x] show ?thesis by auto
qed

lemma round_half_even_err:
  "\<bar>of_int (round_half_even x) - x\<bar> \<le> 1 / 2"
proof -
  define f where "f = \<lfloor>x\<rfloor>"
  have b: "of_int f \<le> x" "x < of_int f + 1" unfolding f_def by linarith+
  have "round_half_even x =
      (if x - of_int f < 1 / 2 then f else if 1 / 2 < x - of_int f then f + 1
       else if even f then f else f + 1)"
    by (simp add: round_half_even_def Let_def f_def)
  with b show ?thesis
    by (auto simp: abs_if split: if_splits)
qed

lemma round2_ge: "of_int a / 100 \<le> x \<Longrightarrow> of_int a / 100 \<le> round2 x"
proof -
  assume "of_int a / 100 \<le> x"
  then have "of_int a \<le> x * 100" by simp
  then have "a \<le> round_half_even (x * 100)" by (rule round_half_even_ge)
  then show ?thesis by (simp add: round2_def divide_right_mono)
qed

lemma round2_le: "x \<le> of_int a / 100 \<Longrightarrow> round2 x \<le> of_int a / 100"
proof -
  assume "x \<le> of_int a / 100"
  then have "x * 100 \<le> of_int a" by simp
  then have "round_half_even (x * 100) \<le> a" by (rule round_half_even_le)
  then show ?thesis by (simp add: round2_def divide_right_mono)
qed

lemma round2_fix: "round2 (of_int a / 100) = of_int a / 100"
  by (simp add: round2_def round_half_even_of_int)

lemma round2_of_int: "round2 (of_int a) = of_int a"
  using round2_fix [of "a * 100"] by simp

lemma round2_err: "\<bar>round2 x - x\<bar> \<le> 1 / 200"
proof -
  have "\<bar>of_int (round_half_even (x * 100)) - x * 100\<bar> \<le> 1 / 2"
    by (rule round_half_even_err)
  then show ?thesis by (simp add: round2_def abs_if split: if_splits) 
qed

lemma round2_grid: "\<exists>k::int. round2 x = of_int k / 100"
  by (auto simp: round2_def)

lemma round2_between:
  "of_int a \<le> x \<Longrightarrow> x \<le> of_int b \<Longrightarrow> of_int a \<le> round2 x \<and> round2 x \<le> of_int b"
  using round2_ge [of "a * 100" x] round2_le [of x "b * 100"] by simp

lemma round2_0_100: "0 \<le> x \<Longrightarrow> x \<le> 100 \<Longrightarrow> 0 \<le> round2 x \<and> round2 x \<le> 100"
  using round2_between [of 0 x 100] by simp

section \<open>Rounding to the nearest double\<close>

lemma round_half_even_mono: "x \<le> y \<Longrightarrow> round_half_even x \<le> round_half_even y"
proof (cases "\<lfloor>x\<rfloor> < \<lfloor>y\<rfloor>")
  case True
  with round_half_even_cases [of x] round_half_even_cases [of y] show ?thesis by auto
next
  case False
  assume le: "x \<le> y"
  then have "\<lfloor>x\<rfloor> \<le> \<lfloor>y\<rfloor>" by (rule floor_mono)
  with False have e: "\<lfloor>y\<rfloor> = \<lfloor>x\<rfloor>" by simp
  show ?thesis
    using le by (auto simp: round_half_even_def Let_def e)
qed

lemma bitlen_powi:
  assumes "0 < p"
  shows "(2::rat) powi (bitlen p - 1) \<le> of_int p" and "of_int p < (2::rat) powi bitlen p"
proof -
  from bitlen_bounds [OF assms]
  have a: "2 ^ nat (bitlen p - 1) \<le> p" and b: "p < 2 ^ nat (bitlen p)" by simp_all
  have n: "1 \<le> bitlen p" using assms by (simp add: bitlen_alt_def)
  have "(2::rat) powi (bitlen p - 1) = 2 ^ nat (bitlen p - 1)"
    using n by (simp add: power_int_def)
  also have "\<dots> = of_int (2 ^ nat (bitlen p - 1))" by simp
  also have "\<dots> \<le> of_int p" using a by (simp only: of_int_le_iff)
  finally show "(2::rat) powi (bitlen p - 1) \<le> of_int p" .
  have "(of_int p :: rat) < of_int (2 ^ nat (bitlen p))" using b by (simp only: of_int_less_iff)
  also have "\<dots> = 2 ^ nat (bitlen p)" by simp
  also have "\<dots> = (2::rat) powi bitlen p" using n by (simp add: power_int_def)
  finally show "of_int p < (2::rat) powi bitlen p" .
qed

lemma binade_bounds:
  assumes "x \<noteq> 0"
  shows "2 powi binade x \<le> \<bar>x\<bar>" and "\<bar>x\<bar> < 2 powi (binade x + 1)"
proof -
  obtain p q where pq: "quotient_of \<bar>x\<bar> = (p, q)" by (cases "quotient_of \<bar>x\<bar>")
  have q: "0 < q" using pq by (rule quotient_of_denom_pos)
  have a: "\<bar>x\<bar> = of_int p / of_int q" using pq by (rule quotient_of_div)
  have "0 < \<bar>x\<bar>" using assms by simp
  with a q have p: "0 < p" by (simp add: zero_less_divide_iff)
  define k where "k = bitlen p - bitlen q"
  have qpos: "(0::rat) < of_int q" using q by simp
  have "\<bar>x\<bar> < 2 powi bitlen p / of_int q"
    unfolding a using bitlen_powi(2) [OF p] qpos by (simp add: divide_strict_right_mono)
  also have "\<dots> \<le> 2 powi bitlen p / 2 powi (bitlen q - 1)"
    using bitlen_powi(1) [OF q] qpos
    by (intro divide_left_mono) (simp_all add: zero_less_power_int zero_less_mult_iff)
  also have "\<dots> = 2 powi (k + 1)"
    by (simp add: k_def power_int_diff [symmetric] algebra_simps)
  finally have up: "\<bar>x\<bar> < 2 powi (k + 1)" .
  have "(2::rat) powi (k - 1) = 2 powi (bitlen p - 1) / 2 powi bitlen q"
    by (simp add: k_def power_int_diff [symmetric] algebra_simps)
  also have "\<dots> < 2 powi (bitlen p - 1) / of_int q"
    using bitlen_powi(2) [OF q] qpos
    by (intro divide_strict_left_mono) (simp_all add: zero_less_power_int zero_less_mult_iff)
  also have "\<dots> \<le> \<bar>x\<bar>"
    unfolding a using bitlen_powi(1) [OF p] qpos by (simp add: divide_right_mono)
  finally have lo: "2 powi (k - 1) < \<bar>x\<bar>" .
  have b: "binade x = (if 2 powi k \<le> \<bar>x\<bar> then k else k - 1)"
    by (simp add: binade_def pq k_def)
  show "2 powi binade x \<le> \<bar>x\<bar>" using lo by (simp add: b)
  show "\<bar>x\<bar> < 2 powi (binade x + 1)" using up by (simp add: b)
qed

lemma fl_0: "fl 0 = 0"
  by (simp add: fl_def)

lemma fl_eq:
  "x \<noteq> 0 \<Longrightarrow> fl x = of_int (round_half_even (x / 2 powi (binade x - 52))) * 2 powi (binade x - 52)"
  by (simp add: fl_def Let_def)

lemma powi_split: "(2::rat) powi e = 2 ^ 52 * 2 powi (e - 52)"
proof -
  have "(2::rat) powi e = 2 powi (52 + (e - 52))" by simp
  also have "\<dots> = 2 powi 52 * 2 powi (e - 52)" by (subst power_int_add) simp_all
  finally show ?thesis by simp
qed

lemma fl_pos_range:
  assumes "0 < x"
  shows "2 powi binade x \<le> fl x" and "fl x \<le> 2 powi (binade x + 1)"
proof -
  define u :: rat where "u = 2 powi (binade x - 52)"
  have u: "0 < u" by (simp add: u_def zero_less_power_int)
  have x0: "x \<noteq> 0" using assms by simp
  from binade_bounds [OF x0] assms
  have lo: "2 powi binade x \<le> x" and hi: "x < 2 powi (binade x + 1)" by simp_all
  have e1: "(2::rat) powi binade x = 2 ^ 52 * u"
    unfolding u_def by (rule powi_split)
  have e2: "(2::rat) powi (binade x + 1) = 2 ^ 53 * u"
    using powi_split [of "binade x + 1"] power_int_add_1 [of "2::rat" "binade x - 52"]
    by (simp add: u_def)
  have "of_int (2 ^ 52) \<le> x / u" using lo u by (simp add: e1 pos_le_divide_eq)
  then have a: "2 ^ 52 \<le> round_half_even (x / u)" by (rule round_half_even_ge)
  have "x / u \<le> of_int (2 ^ 53)" using hi u by (simp add: e2 pos_divide_le_eq)
  then have b: "round_half_even (x / u) \<le> 2 ^ 53" by (rule round_half_even_le)
  have f: "fl x = of_int (round_half_even (x / u)) * u"
    using x0 by (simp add: fl_eq u_def)
  have "(of_int (2 ^ 52) :: rat) \<le> of_int (round_half_even (x / u))"
    using a by (simp only: of_int_le_iff)
  then have "(2::rat) ^ 52 \<le> of_int (round_half_even (x / u))" by simp
  then have "(2::rat) ^ 52 * u \<le> of_int (round_half_even (x / u)) * u"
    using u by (intro mult_right_mono) simp_all
  then show "2 powi binade x \<le> fl x" by (simp only: f e1)
  have "(of_int (round_half_even (x / u)) :: rat) \<le> of_int (2 ^ 53)"
    using b by (simp only: of_int_le_iff)
  then have "of_int (round_half_even (x / u)) \<le> (2::rat) ^ 53" by simp
  then have "of_int (round_half_even (x / u)) * u \<le> (2::rat) ^ 53 * u"
    using u by (intro mult_right_mono) simp_all
  then show "fl x \<le> 2 powi (binade x + 1)" by (simp only: f e2)
qed

lemma fl_nonneg: "0 \<le> x \<Longrightarrow> 0 \<le> fl x"
proof (cases "x = 0")
  case True
  then show ?thesis by (simp add: fl_0)
next
  case False
  assume "0 \<le> x"
  with False have "0 < x" by simp
  from fl_pos_range(1) [OF this] have "2 powi binade x \<le> fl x" .
  moreover have "(0::rat) < 2 powi binade x" by (simp add: zero_less_power_int)
  ultimately show ?thesis by linarith
qed

lemma fl_mono_pos:
  assumes "0 < x" and "x \<le> y"
  shows "fl x \<le> fl y"
proof -
  have y: "0 < y" using assms by simp
  have x0: "x \<noteq> 0" and y0: "y \<noteq> 0" using assms by simp_all
  from binade_bounds [OF x0] assms(1) have lx: "2 powi binade x \<le> x" by simp
  from binade_bounds [OF y0] y have hy: "y < 2 powi (binade y + 1)" by simp
  have le: "binade x \<le> binade y"
  proof (rule ccontr)
    assume "\<not> binade x \<le> binade y"
    then have "binade y + 1 \<le> binade x" by simp
    then have "(2::rat) powi (binade y + 1) \<le> 2 powi binade x"
      by (rule power_int_increasing) simp
    with lx hy assms(2) show False by simp
  qed
  show ?thesis
  proof (cases "binade x = binade y")
    case True
    define u :: rat where "u = 2 powi (binade x - 52)"
    have u: "0 < u" by (simp add: u_def zero_less_power_int)
    have "x / u \<le> y / u" using assms(2) u by (simp add: divide_right_mono)
    then have "round_half_even (x / u) \<le> round_half_even (y / u)"
      by (rule round_half_even_mono)
    then have "(of_int (round_half_even (x / u)) :: rat) \<le> of_int (round_half_even (y / u))"
      by (simp only: of_int_le_iff)
    then have "of_int (round_half_even (x / u)) * u \<le> of_int (round_half_even (y / u)) * u"
      using u by (intro mult_right_mono) simp_all
    then show ?thesis
      using x0 y0 by (simp add: fl_eq u_def True [symmetric])
  next
    case False
    with le have "binade x + 1 \<le> binade y" by simp
    then have "(2::rat) powi (binade x + 1) \<le> 2 powi binade y"
      by (rule power_int_increasing) simp
    with fl_pos_range(2) [OF assms(1)] fl_pos_range(1) [OF y] show ?thesis by linarith
  qed
qed

lemma fl_mono: "0 \<le> x \<Longrightarrow> x \<le> y \<Longrightarrow> fl x \<le> fl y"
proof (cases "x = 0")
  case True
  assume "0 \<le> x" "x \<le> y"
  with True show ?thesis using fl_nonneg [of y] by (simp add: fl_0)
next
  case False
  assume "0 \<le> x" "x \<le> y"
  with False show ?thesis by (intro fl_mono_pos) simp_all
qed

lemma fl_err: "\<bar>fl x - x\<bar> \<le> \<bar>x\<bar> / 2 ^ 53"
proof (cases "x = 0")
  case True
  then show ?thesis by (simp add: fl_0)
next
  case False
  define u :: rat where "u = 2 powi (binade x - 52)"
  have u: "0 < u" by (simp add: u_def zero_less_power_int)
  have f: "fl x = of_int (round_half_even (x / u)) * u"
    using False by (simp add: fl_eq u_def)
  have "\<bar>of_int (round_half_even (x / u)) - x / u\<bar> \<le> 1 / 2"
    by (rule round_half_even_err)
  then have "\<bar>of_int (round_half_even (x / u)) - x / u\<bar> * u \<le> 1 / 2 * u"
    using u by (intro mult_right_mono) simp_all
  moreover have "\<bar>of_int (round_half_even (x / u)) - x / u\<bar> * u = \<bar>fl x - x\<bar>"
  proof -
    have "(of_int (round_half_even (x / u)) - x / u) * u = fl x - x"
      using u by (simp add: f left_diff_distrib)
    then have "\<bar>fl x - x\<bar> = \<bar>of_int (round_half_even (x / u)) - x / u\<bar> * \<bar>u\<bar>"
      by (simp only: abs_mult [symmetric])
    with u show ?thesis by simp
  qed
  ultimately have 1: "\<bar>fl x - x\<bar> \<le> u / 2" by simp
  have "2 ^ 52 * u \<le> \<bar>x\<bar>"
    using binade_bounds(1) [OF False] powi_split [of "binade x"] by (simp add: u_def)
  then have "u / 2 \<le> \<bar>x\<bar> / 2 ^ 53" by simp
  with 1 show ?thesis by linarith
qed

section \<open>Facts about floats\<close>

lemma fl_of_int:
  assumes "\<bar>k\<bar> < 2 ^ 53"
  shows "fl (of_int k) = of_int k"
proof (cases "k = 0")
  case True
  then show ?thesis by (simp add: fl_0)
next
  case False
  define x :: rat where "x = of_int k"
  have x0: "x \<noteq> 0" using False by (simp add: x_def)
  have ax: "\<bar>x\<bar> < 2 ^ 53"
  proof -
    have "(of_int \<bar>k\<bar> :: rat) < of_int (2 ^ 53)" using assms by (simp only: of_int_less_iff)
    then show ?thesis by (simp add: x_def)
  qed
  have e: "binade x \<le> 52"
  proof (rule ccontr)
    assume "\<not> binade x \<le> 52"
    then have "53 \<le> binade x" by simp
    then have "(2::rat) powi 53 \<le> 2 powi binade x" by (rule power_int_increasing) simp
    with binade_bounds(1) [OF x0] ax show False by simp
  qed
  define n where "n = nat (52 - binade x)"
  have u: "(2::rat) powi (binade x - 52) = 1 / 2 ^ n"
  proof -
    have "(2::rat) powi (binade x - 52) = 2 powi (- int n)"
      using e by (simp add: n_def)
    also have "\<dots> = inverse (2 powi int n)" by (rule power_int_minus)
    finally show ?thesis by (simp add: divide_inverse)
  qed
  have q: "x / (1 / 2 ^ n) = of_int (k * 2 ^ n)" by (simp add: x_def)
  have "fl x = of_int (round_half_even (x / (1 / 2 ^ n))) * (1 / 2 ^ n)"
    using fl_eq [OF x0] by (simp only: u)
  also have "\<dots> = of_int (k * 2 ^ n) * (1 / 2 ^ n)"
    by (simp only: q round_half_even_of_int)
  also have "\<dots> = x" by (simp add: x_def)
  finally show ?thesis by (simp only: x_def)
qed

lemma fl_numerals:
  "fl 1 = 1" "fl 10 = 10" "fl 20 = 20" "fl 25 = 25" "fl 30 = 30" "fl 40 = 40" "fl 50 = 50"
  "fl 60 = 60" "fl 70 = 70" "fl 80 = 80" "fl 85 = 85" "fl 90 = 90" "fl 100 = 100"
  using fl_of_int [of 1] fl_of_int [of 10] fl_of_int [of 20] fl_of_int [of 25]
    fl_of_int [of 30] fl_of_int [of 40] fl_of_int [of 50] fl_of_int [of 60] fl_of_int [of 70]
    fl_of_int [of 80] fl_of_int [of 85] fl_of_int [of 90] fl_of_int [of 100]
  by simp_all

lemma weight_values:
  "fl (25 / 100) = 1 / 4"
  "fl (100 * fl (20 / 100)) = 20"
  "fl (100 * fl (10 / 100)) = 10"
  "fl (5 / 10) = 1 / 2"
  by code_simp+

lemma weights_nonneg: "0 \<le> fl (20 / 100)" "0 \<le> fl (10 / 100)"
  by (simp_all add: fl_nonneg)

lemma fl_between:
  assumes "0 \<le> a" "a \<le> x" "x \<le> b" "fl a = a" "fl b = b"
  shows "a \<le> fl x \<and> fl x \<le> b"
  using fl_mono [of a x] fl_mono [of x b] assms by simp

lemma fmul_bounds:
  assumes "0 \<le> a" "a \<le> A" "0 \<le> w" "fl (A * w) = B"
  shows "0 \<le> fmul a w" and "fmul a w \<le> B"
proof -
  have "0 \<le> a * w" using assms by simp
  then show "0 \<le> fmul a w" unfolding fmul_def by (rule fl_nonneg)
  have "a * w \<le> A * w" using assms by (simp add: mult_right_mono)
  with \<open>0 \<le> a * w\<close> have "fl (a * w) \<le> fl (A * w)" by (rule fl_mono)
  then show "fmul a w \<le> B" by (simp add: fmul_def assms(4))
qed

lemma fadd_bounds:
  assumes "0 \<le> a" "a \<le> A" "0 \<le> b" "b \<le> B" "fl (A + B) = C"
  shows "0 \<le> fadd a b" and "fadd a b \<le> C"
proof -
  have "0 \<le> a + b" using assms by simp
  then show "0 \<le> fadd a b" unfolding fadd_def by (rule fl_nonneg)
  have "a + b \<le> A + B" using assms by simp
  with \<open>0 \<le> a + b\<close> have "fl (a + b) \<le> fl (A + B)" by (rule fl_mono)
  then show "fadd a b \<le> C" by (simp add: fadd_def assms(5))
qed

lemma py_round2_between:
  assumes "0 \<le> a" "of_int a \<le> x" "x \<le> of_int b" "b < 2 ^ 53"
  shows "of_int a \<le> py_round2 x \<and> py_round2 x \<le> of_int b"
proof -
  have r: "of_int a \<le> round2 x \<and> round2 x \<le> of_int b"
    using assms(2,3) by (rule round2_between)
  have ab: "a \<le> b" using assms(2,3) by linarith
  have fa: "fl (of_int a) = of_int a" using assms(1,4) ab by (intro fl_of_int) simp
  have fb: "fl (of_int b) = of_int b" using assms(1,4) ab by (intro fl_of_int) simp
  show ?thesis
    unfolding py_round2_def using fl_between [of "of_int a" "round2 x" "of_int b"] r assms(1) fa fb
    by simp
qed

lemma py_round2_of_int: "\<bar>k\<bar> < 2 ^ 53 \<Longrightarrow> py_round2 (of_int k) = of_int k"
  by (simp add: py_round2_def round2_of_int fl_of_int)

lemma py_round2_cutoff:
  assumes "0 \<le> x" "0 \<le> c" "c < 2 ^ 53" "py_round2 x \<noteq> of_int c"
  shows "(of_int c \<le> x) = (of_int c \<le> py_round2 x)"
proof
  assume "of_int c \<le> x"
  then have "of_int c \<le> round2 x" using round2_ge [of "c * 100" x] by simp
  then have "fl (of_int c) \<le> fl (round2 x)" using assms(2) by (intro fl_mono) simp_all
  then show "of_int c \<le> py_round2 x"
    using assms(2,3) by (simp add: py_round2_def fl_of_int)
next
  assume h: "of_int c \<le> py_round2 x"
  show "of_int c \<le> x"
  proof (rule ccontr)
    assume "\<not> of_int c \<le> x"
    then have "x \<le> of_int c" by simp
    then have "round2 x \<le> of_int c" using round2_le [of x "c * 100"] by simp
    moreover have "0 \<le> round2 x" using assms(1) round2_ge [of 0 x] by simp
    ultimately have "fl (round2 x) \<le> fl (of_int c)" by (intro fl_mono)
    then have "py_round2 x \<le> of_int c" using assms(2,3) by (simp add: py_round2_def fl_of_int)
    with h assms(4) show False by simp
  qed
qed

lemma int_div_bounds:
  assumes "0 < n" "0 \<le> lo" "lo * n \<le> t" "t \<le> hi * n" "hi < 2 ^ 53"
  shows "of_int lo \<le> int_div t n \<and> int_div t n \<le> of_int hi"
proof -
  have n: "(0::rat) < of_int n" using assms(1) by simp
  have "(of_int (lo * n) :: rat) \<le> of_int t" using assms(3) by (simp only: of_int_le_iff)
  then have 1: "(of_int lo :: rat) \<le> of_int t / of_int n" using n by (simp add: pos_le_divide_eq)
  have "(of_int t :: rat) \<le> of_int (hi * n)" using assms(4) by (simp only: of_int_le_iff)
  then have 2: "(of_int t :: rat) / of_int n \<le> of_int hi" using n by (simp add: pos_divide_le_eq)
  have lh: "lo \<le> hi" using 1 2 by linarith
  have fa: "fl (of_int lo) = of_int lo" using assms(2,5) lh by (intro fl_of_int) simp
  have fb: "fl (of_int hi) = of_int hi" using assms(2,5) lh by (intro fl_of_int) simp
  show ?thesis
    unfolding int_div_def
    using fl_between [of "of_int lo" "of_int t / of_int n" "of_int hi"] 1 2 assms(2) fa fb by simp
qed

section \<open>Facts about the calculator's component scores\<close>

lemma str_inj: "(str a = str b) = (a = b)"
  by (simp add: str_def inj_map_eq_map inj_on_def)

lemma fold_add_sum_list:
  "fold (\<lambda>x (t::int). t + f x) xs a = a + sum_list (map f xs)"
  by (induction xs arbitrary: a) simp_all

lemma sum_list_bounds:
  fixes f :: "'a \<Rightarrow> int"
  assumes "\<forall>x\<in>set xs. lo \<le> f x \<and> f x \<le> hi"
  shows "lo * int (length xs) \<le> sum_list (map f xs) \<and> sum_list (map f xs) \<le> hi * int (length xs)"
  using assms by (induction xs) (auto simp: algebra_simps)

lemma mean_bounds:
  fixes f :: "'a \<Rightarrow> int"
  assumes "xs \<noteq> []" and "\<forall>x\<in>set xs. lo \<le> f x \<and> f x \<le> hi" and "0 \<le> lo" and "hi < 2 ^ 53"
  shows "of_int lo \<le> int_div (sum_list (map f xs)) (int (length xs))
         \<and> int_div (sum_list (map f xs)) (int (length xs)) \<le> of_int hi"
proof -
  have n: "0 < int (length xs)" using assms(1) by simp
  show ?thesis
    using sum_list_bounds [OF assms(2)] by (intro int_div_bounds [OF n assms(3) _ _ assms(4)]) simp_all
qed

lemma documentation_score_eq:
  "rs \<noteq> [] \<Longrightarrow> calculate_documentation_score rs =
     int_div (sum_list (map (\<lambda>r. quality_score (documentation_analysis r)) rs)) (int (length rs))"
  by (simp add: calculate_documentation_score_def fold_add_sum_list)

lemma code_quality_score_eq:
  "rs \<noteq> [] \<Longrightarrow> calculate_code_quality_score rs =
     int_div (sum_list (map (\<lambda>r. RepoScore.code_quality (AnalyzedRepository.score r)) rs))
       (int (length rs))"
  by (simp add: calculate_code_quality_score_def fold_add_sum_list)

lemma set_dict_keys: "set (dict_keys d) = fst ` set d"
  by (induction d rule: dict_keys.induct) auto

lemma fold_union:
  "fold (\<lambda>x acc. acc \<union> g x) xs A = A \<union> (\<Union>x\<in>set xs. g x)"
  by (induction xs arbitrary: A) auto

lemma all_languages_eq:
  "all_languages rs = (\<Union>r\<in>set rs. fst ` set (languages r))"
  by (simp add: all_languages_def fold_union set_dict_keys)

lemma depth_score_range:
  "calculate_technical_depth_score rs \<in> {0, 20, 40, 60, 80, 100}"
  by (simp add: calculate_technical_depth_score_def Let_def)

lemma consistency_score_range:
  "0 \<le> calculate_consistency_score rs u \<and> calculate_consistency_score rs u \<le> 100"
proof (cases "rs = []")
  case True
  then show ?thesis by (simp add: calculate_consistency_score_def)
next
  case False
  define a where "a = length (filter (\<lambda>repo. is_active (activity_analysis repo)) rs)"
  have n: "0 < int (length rs)" using False by simp
  have "a \<le> length rs" unfolding a_def by (rule length_filter_le)
  then have ratio: "of_int 0 \<le> int_div (int a) (int (length rs))
      \<and> int_div (int a) (int (length rs)) \<le> of_int 1"
    by (intro int_div_bounds [OF n]) simp_all
  have bonus0: "of_int 0 \<le> int_div (int (min (recent_activity u) 50)) 50
      \<and> int_div (int (min (recent_activity u) 50)) 50 \<le> of_int 1"
    by (intro int_div_bounds) simp_all
  have r80: "0 \<le> fmul (int_div (int a) (int (length rs))) 80"
    "fmul (int_div (int a) (int (length rs))) 80 \<le> 80"
    using ratio by (auto intro!: fmul_bounds [where A = 1] simp: fl_numerals)
  have b20: "0 \<le> fmul (int_div (int (min (recent_activity u) 50)) 50) 20"
    "fmul (int_div (int (min (recent_activity u) 50)) 50) 20 \<le> 20"
    using bonus0 by (auto intro!: fmul_bounds [where A = 1] simp: fl_numerals)
  have "0 \<le> fadd (fmul (int_div (int a) (int (length rs))) 80)
      (fmul (int_div (int (min (recent_activity u) 50)) 50) 20)"
    using r80 b20 by (intro fadd_bounds(1) [where A = 80 and B = 20 and C = 100])
      (simp_all add: fl_numerals)
  then show ?thesis
    using False by (simp add: calculate_consistency_score_def Let_def a_def min_def)
qed

lemma impact_score_range:
  assumes "\<forall>r\<in>set rs. 0 \<le> stars r \<and> 0 \<le> forks r"
  shows "0 \<le> calculate_impact_score rs \<and> calculate_impact_score rs \<le> 100"
proof -
  have "0 \<le> sum_list (map stars rs)" "0 \<le> sum_list (map forks rs)"
    using assms by (auto intro!: sum_list_nonneg)
  then show ?thesis
    by (simp add: calculate_impact_score_def Let_def min_def)
qed

lemma weighted_overall_eq:
  "weighted_overall u rs =
     fadd (fadd (fadd (fadd (fmul (calculate_documentation_score rs) (fl (25 / 100)))
                            (fmul (calculate_code_quality_score rs) (fl (25 / 100))))
                      (fmul (calculate_consistency_score rs u) (fl (20 / 100))))
                (fmul (float_of_int (calculate_impact_score rs)) (fl (20 / 100))))
          (fmul (float_of_int (calculate_technical_depth_score rs)) (fl (10 / 100)))"
  by (simp add: weighted_overall_def SCORING_WEIGHTS_def Let_def)

lemma float_of_small_int: "\<bar>i\<bar> < 2 ^ 53 \<Longrightarrow> float_of_int i = of_int i"
  by (simp add: float_of_int_def fl_of_int)

lemma weighted_range:
  assumes "0 \<le> a" "a \<le> 100" "0 \<le> b" "b \<le> 100" "0 \<le> c" "c \<le> 100"
    "0 \<le> d" "d \<le> 100" "0 \<le> e" "e \<le> 100"
  shows "0 \<le> fadd (fadd (fadd (fadd (fmul a (fl (25 / 100))) (fmul b (fl (25 / 100))))
                      (fmul c (fl (20 / 100)))) (fmul d (fl (20 / 100)))) (fmul e (fl (10 / 100)))"
    and "fadd (fadd (fadd (fadd (fmul a (fl (25 / 100))) (fmul b (fl (25 / 100))))
                      (fmul c (fl (20 / 100)))) (fmul d (fl (20 / 100)))) (fmul e (fl (10 / 100)))
         \<le> 100"
proof -
  have q: "(0::rat) \<le> fl (25 / 100)" by (rule fl_nonneg) simp
  have f25: "fl (100 * fl (25 / 100)) = 25" by (simp only: weight_values) (simp add: fl_numerals)
  note t1 = fmul_bounds [OF assms(1,2) q f25]
  note t2 = fmul_bounds [OF assms(3,4) q f25]
  note t3 = fmul_bounds [OF assms(5,6) weights_nonneg(1) weight_values(2)]
  note t4 = fmul_bounds [OF assms(7,8) weights_nonneg(1) weight_values(2)]
  note t5 = fmul_bounds [OF assms(9,10) weights_nonneg(2) weight_values(3)]
  have f50: "fl (25 + 25) = 50" "fl (50 + 20) = 70" "fl (70 + 20) = 90" "fl (90 + 10) = 100"
    by (simp_all add: fl_numerals)
  note s1 = fadd_bounds [OF t1 t2 f50(1)]
  note s2 = fadd_bounds [OF s1 t3 f50(2)]
  note s3 = fadd_bounds [OF s2 t4 f50(3)]
  note s4 = fadd_bounds [OF s3 t5 f50(4)]
  show "0 \<le> fadd (fadd (fadd (fadd (fmul a (fl (25 / 100))) (fmul b (fl (25 / 100))))
                      (fmul c (fl (20 / 100)))) (fmul d (fl (20 / 100)))) (fmul e (fl (10 / 100)))"
    by (rule s4(1))
  show "fadd (fadd (fadd (fadd (fmul a (fl (25 / 100))) (fmul b (fl (25 / 100))))
                      (fmul c (fl (20 / 100)))) (fmul d (fl (20 / 100)))) (fmul e (fl (10 / 100)))
         \<le> 100"
    by (rule s4(2))
qed

section \<open>Facts about analyzed repositories\<close>

lemma analyze_repository_sel:
  "documentation_analysis (analyze_repository now rd readme langs commits) =
     analyze_documentation readme rd"
  "code_analysis (analyze_repository now rd readme langs commits) =
     analyze_code_structure rd langs"
  "activity_analysis (analyze_repository now rd readme langs commits) =
     analyze_activity now commits rd"
  "AnalyzedRepository.score (analyze_repository now rd readme langs commits) =
     calculate_repo_score (analyze_documentation readme rd) (analyze_code_structure rd langs)
       (analyze_activity now commits rd) rd"
  "stars (analyze_repository now rd readme langs commits) = stargazers_count rd"
  "forks (analyze_repository now rd readme langs commits) = forks_count rd"
  "languages (analyze_repository now rd readme langs commits) = langs"
  by (simp_all add: analyze_repository_def Let_def)

lemma quality_score_closed:
  "quality_score (analyze_documentation readme rd) =
     (if readme = [] then 0
      else (if 500 < length readme then 30 else if 200 < length readme then 15 else 0)
         + (if re_search setup_re readme then 20 else 0)
         + (if re_search examples_re readme then 20 else 0)
         + (if re_search badges_re readme then 15 else 0)
         + (if re_search api_re readme then 15 else 0))"
  by (simp add: analyze_documentation_def Let_def)

lemma quality_score_range:
  "0 \<le> quality_score (analyze_documentation readme rd)
   \<and> quality_score (analyze_documentation readme rd) \<le> 100"
  by (simp add: quality_score_closed)

lemma repo_code_quality_closed:
  "RepoScore.code_quality (calculate_repo_score da ca aa rd) =
     50 + (if has_multiple_languages ca then 20 else 0) + (if has_wiki_enabled ca then 15 else 0)"
  by (simp add: calculate_repo_score_def Let_def)

lemma repo_code_quality_range:
  "50 \<le> RepoScore.code_quality (calculate_repo_score da ca aa rd)
   \<and> RepoScore.code_quality (calculate_repo_score da ca aa rd) \<le> 85"
  by (simp add: repo_code_quality_closed)

lemma set_analyze_repositories:
  "r \<in> set (analyze_repositories inputs) \<Longrightarrow>
     \<exists>now rd readme langs commits.
       (now, rd, readme, langs, commits) \<in> set inputs
       \<and> r = analyze_repository now rd readme langs commits"
  by (fastforce simp: analyze_repositories_def)

lemma analyzed_quality_range:
  "\<forall>r\<in>set (analyze_repositories inputs).
     0 \<le> quality_score (documentation_analysis r) \<and> quality_score (documentation_analysis r) \<le> 100"
  using quality_score_range
  by (auto dest!: set_analyze_repositories simp: analyze_repository_sel)

lemma analyzed_code_quality_range:
  "\<forall>r\<in>set (analyze_repositories inputs).
     50 \<le> RepoScore.code_quality (AnalyzedRepository.score r)
     \<and> RepoScore.code_quality (AnalyzedRepository.score r) \<le> 85"
  using repo_code_quality_range
  by (auto dest!: set_analyze_repositories simp: analyze_repository_sel)

lemma analyzed_counts_nonneg:
  assumes "\<forall>(now, rd, readme, langs, commits)\<in>set inputs.
             0 \<le> stargazers_count rd \<and> 0 \<le> forks_count rd"
  shows "\<forall>r\<in>set (analyze_repositories inputs). 0 \<le> stars r \<and> 0 \<le> forks r"
  using assms
  by (fastforce dest!: set_analyze_repositories simp: analyze_repository_sel)

lemma analyze_repositories_Nil: "(analyze_repositories inputs = []) = (inputs = [])"
  by (simp add: analyze_repositories_def)

lemma documentation_score_range:
  assumes "\<forall>r\<in>set rs. 0 \<le> quality_score (documentation_analysis r)
      \<and> quality_score (documentation_analysis r) \<le> 100"
  shows "0 \<le> calculate_documentation_score rs \<and> calculate_documentation_score rs \<le> 100"
proof (cases "rs = []")
  case True
  then show ?thesis by (simp add: calculate_documentation_score_def)
next
  case False
  show ?thesis
    using mean_bounds [OF False assms] by (simp add: documentation_score_eq [OF False])
qed

lemma code_quality_score_range:
  assumes "rs \<noteq> []"
    and "\<forall>r\<in>set rs. 50 \<le> RepoScore.code_quality (AnalyzedRepository.score r)
      \<and> RepoScore.code_quality (AnalyzedRepository.score r) \<le> 85"
  shows "50 \<le> calculate_code_quality_score rs \<and> calculate_code_quality_score rs \<le> 85"
  using mean_bounds [OF assms] by (simp add: code_quality_score_eq [OF assms(1)])

lemma code_quality_score_Nil: "calculate_code_quality_score [] = 0"
  by (simp add: calculate_code_quality_score_def)

lemma components_calculate:
  "Components.documentation (components (calculate_portfolio_score u rs)) =
     py_round2 (calculate_documentation_score rs)"
  "Components.code_quality (components (calculate_portfolio_score u rs)) =
     py_round2 (calculate_code_quality_score rs)"
  "Components.consistency (components (calculate_portfolio_score u rs)) =
     py_round2 (calculate_consistency_score rs u)"
  "Components.impact (components (calculate_portfolio_score u rs)) =
     of_int (calculate_impact_score rs)"
  "Components.depth (components (calculate_portfolio_score u rs)) =
     of_int (calculate_technical_depth_score rs)"
  "PortfolioScore.grade (calculate_portfolio_score u rs) =
     ScoreCalculator_get_grade (weighted_overall u rs)"
  "red_flags (calculate_portfolio_score u rs) = identify_red_flags rs"
  "PortfolioScore.strengths (calculate_portfolio_score u rs) = identify_portfolio_strengths rs"
  by (simp_all add: calculate_portfolio_score_def Let_def)

lemma overall_calculate:
  "PortfolioScore.overall (calculate_portfolio_score u rs) = py_round2 (weighted_overall u rs)"
  by (simp add: calculate_portfolio_score_def Let_def)

section \<open>Ranges of the portfolio score\<close>

lemma grade_of_rounded:
  assumes "0 \<le> x" and "py_round2 x \<notin> {60, 70, 80, 90}"
  shows "ScoreCalculator_get_grade x = ScoreCalculator_get_grade (py_round2 x)"
proof -
  have "(90 \<le> x) = (90 \<le> py_round2 x)" using py_round2_cutoff [of x 90] assms by simp
  moreover have "(80 \<le> x) = (80 \<le> py_round2 x)" using py_round2_cutoff [of x 80] assms by simp
  moreover have "(70 \<le> x) = (70 \<le> py_round2 x)" using py_round2_cutoff [of x 70] assms by simp
  moreover have "(60 \<le> x) = (60 \<le> py_round2 x)" using py_round2_cutoff [of x 60] assms by simp
  ultimately show ?thesis by (simp add: ScoreCalculator_get_grade_def)
qed

lemma get_grade_step:
  "(90 \<le> x \<longrightarrow> ScoreCalculator_get_grade x = str ''A'')
   \<and> (80 \<le> x \<and> x < 90 \<longrightarrow> ScoreCalculator_get_grade x = str ''B'')
   \<and> (70 \<le> x \<and> x < 80 \<longrightarrow> ScoreCalculator_get_grade x = str ''C'')
   \<and> (60 \<le> x \<and> x < 70 \<longrightarrow> ScoreCalculator_get_grade x = str ''D'')
   \<and> (x < 60 \<longrightarrow> ScoreCalculator_get_grade x = str ''F'')"
  by (simp add: ScoreCalculator_get_grade_def)

lemma py_round2_0_100: "0 \<le> x \<Longrightarrow> x \<le> 100 \<Longrightarrow> 0 \<le> py_round2 x \<and> py_round2 x \<le> 100"
  using py_round2_between [of 0 x 100] by simp

lemma weighted_overall_range:
  assumes "\<forall>r\<in>set rs. 0 \<le> stars r \<and> 0 \<le> forks r"
    and "\<forall>r\<in>set rs. 0 \<le> quality_score (documentation_analysis r)
           \<and> quality_score (documentation_analysis r) \<le> 100"
    and "\<forall>r\<in>set rs. 50 \<le> RepoScore.code_quality (AnalyzedRepository.score r)
           \<and> RepoScore.code_quality (AnalyzedRepository.score r) \<le> 85"
  shows "0 \<le> calculate_code_quality_score rs \<and> calculate_code_quality_score rs \<le> 100"
    and "0 \<le> weighted_overall u rs \<and> weighted_overall u rs \<le> 100"
proof -
  show cq: "0 \<le> calculate_code_quality_score rs \<and> calculate_code_quality_score rs \<le> 100"
  proof (cases "rs = []")
    case True
    then show ?thesis by (simp add: code_quality_score_Nil)
  next
    case False
    from code_quality_score_range [OF False assms(3)] show ?thesis by simp
  qed
  have im: "0 \<le> calculate_impact_score rs \<and> calculate_impact_score rs \<le> 100"
    by (rule impact_score_range [OF assms(1)])
  then have imf: "0 \<le> float_of_int (calculate_impact_score rs)
      \<and> float_of_int (calculate_impact_score rs) \<le> 100"
    by (simp add: float_of_small_int)
  have "0 \<le> calculate_technical_depth_score rs \<and> calculate_technical_depth_score rs \<le> 100"
    using depth_score_range [of rs] by auto
  then have dp: "0 \<le> float_of_int (calculate_technical_depth_score rs)
      \<and> float_of_int (calculate_technical_depth_score rs) \<le> 100"
    by (simp add: float_of_small_int)
  show "0 \<le> weighted_overall u rs \<and> weighted_overall u rs \<le> 100"
    unfolding weighted_overall_eq
    using weighted_range [of "calculate_documentation_score rs" "calculate_code_quality_score rs"
        "calculate_consistency_score rs u" "float_of_int (calculate_impact_score rs)"
        "float_of_int (calculate_technical_depth_score rs)"]
      documentation_score_range [OF assms(2)] cq consistency_score_range [of rs u] imf dp
    by blast
qed

text \<open>
  C1 (amended). For every user record and every list of repositories produced by the
  analyzer from repository records whose star and fork counts are not negative, the five
  component scores and the overall score of the result lie in [0,100]. The grade is the
  step function (cutoffs 90, 80, 70, 60) of the weighted sum of the component scores as
  the floats give it, before it is rounded; the reported overall score is that sum rounded
  to two decimals, and the grade is the step function of the reported overall score
  whenever the reported score is not exactly 60, 70, 80 or 90.
\<close>

theorem portfolio_score_ranges:
  assumes "\<forall>(now, rd, readme, langs, commits)\<in>set inputs.
           0 \<le> stargazers_count rd \<and> 0 \<le> forks_count rd"
  shows "(let ps = calculate_portfolio_score u (analyze_repositories inputs);
              w = weighted_overall u (analyze_repositories inputs)
          in 0 \<le> Components.documentation (components ps)
             \<and> Components.documentation (components ps) \<le> 100
             \<and> 0 \<le> Components.code_quality (components ps)
             \<and> Components.code_quality (components ps) \<le> 100
             \<and> 0 \<le> Components.consistency (components ps)
             \<and> Components.consistency (components ps) \<le> 100
             \<and> 0 \<le> Components.impact (components ps)
             \<and> Components.impact (components ps) \<le> 100
             \<and> 0 \<le> Components.depth (components ps)
             \<and> Components.depth (components ps) \<le> 100
             \<and> 0 \<le> PortfolioScore.overall ps \<and> PortfolioScore.overall ps \<le> 100
             \<and> PortfolioScore.overall ps = py_round2 w
             \<and> (90 \<le> w \<longrightarrow> PortfolioScore.grade ps = str ''A'')
             \<and> (80 \<le> w \<and> w < 90 \<longrightarrow> PortfolioScore.grade ps = str ''B'')
             \<and> (70 \<le> w \<and> w < 80 \<longrightarrow> PortfolioScore.grade ps = str ''C'')
             \<and> (60 \<le> w \<and> w < 70 \<longrightarrow> PortfolioScore.grade ps = str ''D'')
             \<and> (w < 60 \<longrightarrow> PortfolioScore.grade ps = str ''F'')
             \<and> (PortfolioScore.overall ps \<notin> {60, 70, 80, 90} \<longrightarrow>
                  PortfolioScore.grade ps = ScoreCalculator_get_grade (PortfolioScore.overall ps)))"
proof -
  define rs where "rs = analyze_repositories inputs"
  have st: "\<forall>r\<in>set rs. 0 \<le> stars r \<and> 0 \<le> forks r"
    unfolding rs_def by (rule analyzed_counts_nonneg [OF assms])
  have q: "\<forall>r\<in>set rs. 0 \<le> quality_score (documentation_analysis r)
           \<and> quality_score (documentation_analysis r) \<le> 100"
    unfolding rs_def by (rule analyzed_quality_range)
  have c: "\<forall>r\<in>set rs. 50 \<le> RepoScore.code_quality (AnalyzedRepository.score r)
           \<and> RepoScore.code_quality (AnalyzedRepository.score r) \<le> 85"
    unfolding rs_def by (rule analyzed_code_quality_range)
  note w = weighted_overall_range [OF st q c]
  have 1: "0 \<le> py_round2 (calculate_documentation_score rs)
      \<and> py_round2 (calculate_documentation_score rs) \<le> 100"
    using documentation_score_range [OF q] by (simp add: py_round2_0_100)
  have 2: "0 \<le> py_round2 (calculate_code_quality_score rs)
      \<and> py_round2 (calculate_code_quality_score rs) \<le> 100"
    using w(1) by (simp add: py_round2_0_100)
  have 3: "0 \<le> py_round2 (calculate_consistency_score rs u)
      \<and> py_round2 (calculate_consistency_score rs u) \<le> 100"
    using consistency_score_range [of rs u] by (simp add: py_round2_0_100)
  have 4: "(0::rat) \<le> of_int (calculate_impact_score rs)
      \<and> (of_int (calculate_impact_score rs) :: rat) \<le> 100"
    using impact_score_range [OF st] by simp
  have 5: "(0::rat) \<le> of_int (calculate_technical_depth_score rs)
      \<and> (of_int (calculate_technical_depth_score rs) :: rat) \<le> 100"
    using depth_score_range [of rs] by auto
  have 6: "0 \<le> py_round2 (weighted_overall u rs) \<and> py_round2 (weighted_overall u rs) \<le> 100"
    using w(2) [of u] by (simp add: py_round2_0_100)
  have 8: "py_round2 (weighted_overall u rs) \<notin> {60, 70, 80, 90} \<longrightarrow>
      ScoreCalculator_get_grade (weighted_overall u rs) =
      ScoreCalculator_get_grade (py_round2 (weighted_overall u rs))"
    using grade_of_rounded [of "weighted_overall u rs"] w(2) [of u] by blast
  show ?thesis
    unfolding Let_def rs_def [symmetric] components_calculate overall_calculate
    using 1 2 3 4 5 6 8 get_grade_step [of "weighted_overall u rs"]
    by blast
qed

section \<open>The example repositories\<close>

text \<open>The float operations that the examples below perform, each evaluated.\<close>

lemma boundary_floats:
  "int_div 210 3 = 70"
  "int_div 185 3 = 8678811781911893 / 140737488355328"
  "int_div 3 3 = 1"
  "fmul 1 80 = 80"
  "int_div 1 50 = 5764607523034235 / 288230376151711744"
  "fmul (5764607523034235 / 288230376151711744) 20 = 3602879701896397 / 9007199254740992"
  "fadd 80 (3602879701896397 / 9007199254740992) = 2828823515942093 / 35184372088832"
  "fl (1 / 4) = 1 / 4"
  "fl (1 / 5) = 3602879701896397 / 18014398509481984"
  "fl (1 / 10) = 3602879701896397 / 36028797018963968"
  "fmul 70 (1 / 4) = 35 / 2"
  "fmul (8678811781911893 / 140737488355328) (1 / 4) = 8678811781911893 / 562949953421312"
  "fadd (35 / 2) (8678811781911893 / 562949953421312) = 4632608991696213 / 140737488355328"
  "fmul (2828823515942093 / 35184372088832) (3602879701896397 / 18014398509481984) = 4526117625507349 / 281474976710656"
  "fadd (4632608991696213 / 140737488355328) (4526117625507349 / 281474976710656) = 215489618889059 / 4398046511104"
  "float_of_int 5 = 5"
  "fmul 5 (3602879701896397 / 18014398509481984) = 1"
  "fadd (215489618889059 / 4398046511104) 1 = 219887665400163 / 4398046511104"
  "float_of_int 100 = 100"
  "fmul 100 (3602879701896397 / 36028797018963968) = 10"
  "fadd (219887665400163 / 4398046511104) 10 = 263868130511203 / 4398046511104"
  "py_round2 (263868130511203 / 4398046511104) = 60"
  "py_round2 70 = 70"
  "py_round2 (8678811781911893 / 140737488355328) = 4339640453436539 / 70368744177664"
  "py_round2 (2828823515942093 / 35184372088832) = 2828823515942093 / 35184372088832"
  "int_div 4 50 = 5764607523034235 / 72057594037927936"
  "fmul (5764607523034235 / 72057594037927936) 20 = 3602879701896397 / 2251799813685248"
  "fadd 80 (3602879701896397 / 2251799813685248) = 2871044762448691 / 35184372088832"
  "fmul (2871044762448691 / 35184372088832) (3602879701896397 / 18014398509481984) = 2296835809958953 / 140737488355328"
  "fadd (4632608991696213 / 140737488355328) (2296835809958953 / 140737488355328) = 3464722400827583 / 70368744177664"
  "fadd (3464722400827583 / 70368744177664) 1 = 3535091145005247 / 70368744177664"
  "fadd (3535091145005247 / 70368744177664) 10 = 4238778586781887 / 70368744177664"
  "py_round2 (4238778586781887 / 70368744177664) = 8478026298524959 / 140737488355328"
  "py_round2 (2871044762448691 / 35184372088832) = 2871044762448691 / 35184372088832"
  "fadd (8478026298524959 / 140737488355328) 20 = 352899252050985 / 4398046511104"
  "fsub (352899252050985 / 4398046511104) (8478026298524959 / 140737488355328) = 2814749767106561 / 140737488355328"
  "py_round2 (2814749767106561 / 140737488355328) = 20"
  "fl (1506 / 25) = 8478026298524959 / 140737488355328"
  "fl (8024000000000001 / 100000000000000) = 352899252050985 / 4398046511104"
  "fl (1 / 2) = 1 / 2"
  "fl (43 / 100) = 7746191359077253 / 18014398509481984"
  "fl (3 / 5) = 5404319552844595 / 9007199254740992"
  by code_simp+

lemma short_readme_detect:
  "short_readme \<noteq> []" "length short_readme = 25"
  "re_search setup_re short_readme" "re_search examples_re short_readme"
  "re_search badges_re short_readme" "re_search api_re short_readme"
  by (simp_all add: short_readme_def str_def setup_re_def examples_re_def badges_re_def
      api_re_def ci_eq_def)

lemma short_readme_quality: "quality_score (analyze_documentation short_readme rd) = 70"
  by (simp add: quality_score_closed short_readme_detect)

lemma one_commit_active:
  "is_active (analyze_activity 86400000000 [\<lparr>date = 0\<rparr>] rd)"
  by (simp add: analyze_activity_def timedelta_days_def ACTIVE_DAYS_THRESHOLD_def Let_def)


lemma code_structure_sel:
  "has_multiple_languages (analyze_code_structure rd langs) = (1 < dict_len langs)"
  "has_wiki_enabled (analyze_code_structure rd langs) = has_wiki rd"
  by (simp_all add: analyze_code_structure_def)

lemma demo_repo_sel:
  "stargazers_count (demo_repo n s f w) = s"
  "forks_count (demo_repo n s f w) = f"
  "has_wiki (demo_repo n s f w) = w"
  by (simp_all add: demo_repo_def)

lemma boundary_repositories:
  "analyze_repositories boundary_inputs =
     [analyze_repository 86400000000 (demo_repo ''one'' 1 1 True) short_readme
        [(str ''Python'', 10), (str ''C'', 5), (str ''Go'', 1)] [\<lparr>date = 0\<rparr>],
      analyze_repository 86400000000 (demo_repo ''two'' 0 0 False) short_readme
        [(str ''Rust'', 10)] [\<lparr>date = 0\<rparr>],
      analyze_repository 86400000000 (demo_repo ''three'' 0 0 False) short_readme
        [(str ''Java'', 10)] [\<lparr>date = 0\<rparr>]]"
  by (simp add: analyze_repositories_def boundary_inputs_def)

lemma boundary_documentation:
  "calculate_documentation_score (analyze_repositories boundary_inputs) = 70"
  by (simp add: boundary_repositories documentation_score_eq analyze_repository_sel
      short_readme_quality boundary_floats)

lemma boundary_code_quality:
  "calculate_code_quality_score (analyze_repositories boundary_inputs) = int_div 185 3"
  by (simp add: boundary_repositories code_quality_score_eq analyze_repository_sel
      repo_code_quality_closed code_structure_sel demo_repo_sel dict_len_def str_def)

lemma boundary_consistency:
  "calculate_consistency_score (analyze_repositories boundary_inputs) demo_user =
     fadd 80 (fmul (int_div 1 50) 20)"
  "calculate_consistency_score (analyze_repositories boundary_inputs) busy_user =
     fadd 80 (fmul (int_div 4 50) 20)"
  by (simp_all add: boundary_repositories calculate_consistency_score_def analyze_repository_sel
      one_commit_active demo_user_def busy_user_def Let_def boundary_floats)

lemma boundary_impact:
  "calculate_impact_score (analyze_repositories boundary_inputs) = 5"
  by (simp add: boundary_repositories calculate_impact_score_def analyze_repository_sel
      demo_repo_sel Let_def)

lemma boundary_languages:
  "card (all_languages (analyze_repositories boundary_inputs)) = 5"
  by (simp add: boundary_repositories all_languages_eq analyze_repository_sel str_def)

lemma boundary_depth:
  "calculate_technical_depth_score (analyze_repositories boundary_inputs) = 100"
  by (simp add: calculate_technical_depth_score_def boundary_languages Let_def)
    (simp add: boundary_repositories)

lemma boundary_weighted:
  "weighted_overall demo_user (analyze_repositories boundary_inputs) =
     263868130511203 / 4398046511104"
  "weighted_overall busy_user (analyze_repositories boundary_inputs) =
     4238778586781887 / 70368744177664"
  by (simp_all add: weighted_overall_eq boundary_documentation boundary_code_quality
      boundary_consistency boundary_impact boundary_depth boundary_floats)

lemma boundary_overall:
  "PortfolioScore.overall
     (calculate_portfolio_score demo_user (analyze_repositories boundary_inputs)) = 60"
  "PortfolioScore.overall
     (calculate_portfolio_score busy_user (analyze_repositories boundary_inputs)) = fl (6024 / 100)"
  by (simp_all add: overall_calculate boundary_weighted boundary_floats)

lemma negative_impact:
  "calculate_impact_score (analyze_repositories negative_inputs) = - 2"
  by (simp add: analyze_repositories_def negative_inputs_def calculate_impact_score_def
      analyze_repository_sel demo_repo_sel Let_def)

text \<open>
  C1 (counterexample). For the three example repositories the weighted sum is
  59.99666666666667 as a float: the reported overall score is 60.0 and the grade is F, not
  D. (And a repository record with a negative star count gives a negative impact
  component, which is why the star and fork counts are taken not to be negative.)
\<close>

theorem grade_of_reported_overall_counterexample:
  "PortfolioScore.overall
      (calculate_portfolio_score demo_user (analyze_repositories boundary_inputs)) = 60
   \<and> PortfolioScore.grade
      (calculate_portfolio_score demo_user (analyze_repositories boundary_inputs)) = str ''F''
   \<and> PortfolioScore.grade
      (calculate_portfolio_score demo_user (analyze_repositories boundary_inputs)) \<noteq> str ''D''
   \<and> weighted_overall demo_user (analyze_repositories boundary_inputs) < 60
   \<and> Components.impact
        (components (calculate_portfolio_score demo_user (analyze_repositories negative_inputs)))
      = - 2"
  by (simp add: boundary_overall components_calculate boundary_weighted negative_impact
      ScoreCalculator_get_grade_def str_inj)

text \<open>The statement at the three example repositories, whose grade is F.\<close>

theorem portfolio_score_ranges_witness:
  "list_all (\<lambda>(now, rd, readme, langs, commits).
         0 \<le> stargazers_count rd \<and> 0 \<le> forks_count rd) boundary_inputs
   \<and> 0 \<le> PortfolioScore.overall
         (calculate_portfolio_score demo_user (analyze_repositories boundary_inputs))
   \<and> PortfolioScore.overall
         (calculate_portfolio_score demo_user (analyze_repositories boundary_inputs)) \<le> 100
   \<and> PortfolioScore.overall
         (calculate_portfolio_score demo_user (analyze_repositories boundary_inputs))
       = py_round2 (weighted_overall demo_user (analyze_repositories boundary_inputs))
   \<and> PortfolioScore.grade
        (calculate_portfolio_score demo_user (analyze_repositories boundary_inputs)) = str ''F''"
proof -
  have h2: "\<forall>(now, rd, readme, langs, commits)\<in>set boundary_inputs.
         0 \<le> stargazers_count rd \<and> 0 \<le> forks_count rd"
    by (simp add: boundary_inputs_def demo_repo_sel)
  have w: "weighted_overall demo_user (analyze_repositories boundary_inputs) < 60"
    by (simp add: boundary_weighted)
  have h2': "list_all (\<lambda>(now, rd, readme, langs, commits).
         0 \<le> stargazers_count rd \<and> 0 \<le> forks_count rd) boundary_inputs"
    using h2 by (simp only: list_all_iff)
  show ?thesis
    using portfolio_score_ranges [OF h2, of demo_user] h2' w unfolding Let_def by blast
qed

section \<open>The empty portfolio, technical depth and code quality\<close>

text \<open>
  C2. For every user record, the portfolio score of the empty repository list has overall
  score 0 and grade F, its red flags are exactly the one string "No public repositories",
  and its strengths are empty.
\<close>

theorem empty_portfolio:
  "PortfolioScore.overall (calculate_portfolio_score u []) = 0
   \<and> PortfolioScore.grade (calculate_portfolio_score u []) = str ''F''
   \<and> red_flags (calculate_portfolio_score u []) = [str ''No public repositories'']
   \<and> PortfolioScore.strengths (calculate_portfolio_score u []) = []"
proof -
  have w: "weighted_overall u [] = 0"
    by (simp add: weighted_overall_eq calculate_documentation_score_def
        calculate_code_quality_score_def calculate_consistency_score_def
        calculate_impact_score_def calculate_technical_depth_score_def
        fmul_def fadd_def float_of_int_def fl_0)
  have r: "py_round2 0 = 0" using py_round2_of_int [of 0] by simp
  have f: "identify_red_flags [] = [str ''No public repositories'']"
    by (simp add: identify_red_flags_def)
  have s: "identify_portfolio_strengths [] = []"
    by (simp add: identify_portfolio_strengths_def all_languages_def Let_def)
  show ?thesis
    by (simp add: overall_calculate components_calculate w r f s ScoreCalculator_get_grade_def)
qed

text \<open>The statement at the example user.\<close>

theorem empty_portfolio_witness:
  "PortfolioScore.overall (calculate_portfolio_score demo_user []) = 0
   \<and> PortfolioScore.grade (calculate_portfolio_score demo_user []) = str ''F''
   \<and> red_flags (calculate_portfolio_score demo_user []) = [str ''No public repositories'']
   \<and> PortfolioScore.strengths (calculate_portfolio_score demo_user []) = []"
  using empty_portfolio [of demo_user] by simp

lemma depth_component:
  "Components.depth (components (calculate_portfolio_score u rs)) =
     of_int (calculate_technical_depth_score rs)"
  by (simp add: components_calculate)

text \<open>
  C3 (amended). For every non-empty list of analyzed repositories, the depth component of
  the portfolio score is the step function of the number of distinct languages among the
  keys of the repositories' language mappings: at least 5 gives 100, at least 3 gives 80,
  at least 2 gives 60, at least 1 gives 40, and none gives 20. For the empty list the depth
  component is 0.
\<close>

theorem depth_component_step:
  "(rs \<noteq> [] \<longrightarrow>
      Components.depth (components (calculate_portfolio_score u rs)) =
        depth_step_spec (card (\<Union>r\<in>set rs. fst ` set (languages r))))
   \<and> Components.depth (components (calculate_portfolio_score u [])) = 0"
  by (simp add: depth_component calculate_technical_depth_score_def all_languages_eq
      depth_step_spec_def Let_def)

text \<open>
  C3 (counterexample). The empty list has no language at all, for which the step function
  gives 20; its depth component is 0.
\<close>

theorem depth_component_empty_counterexample:
  "card (all_languages []) = 0
   \<and> depth_step_spec (card (all_languages [])) = 20
   \<and> Components.depth (components (calculate_portfolio_score demo_user [])) = 0
   \<and> Components.depth (components (calculate_portfolio_score demo_user [])) \<noteq>
       depth_step_spec (card (all_languages []))"
  by (simp add: depth_component calculate_technical_depth_score_def depth_step_spec_def
      all_languages_def)

text \<open>The statement at the three example repositories, which use five languages.\<close>

theorem depth_component_step_witness:
  "analyze_repositories boundary_inputs \<noteq> []
   \<and> Components.depth
        (components (calculate_portfolio_score demo_user (analyze_repositories boundary_inputs)))
      = depth_step_spec
          (card (\<Union>r\<in>set (analyze_repositories boundary_inputs). fst ` set (languages r)))
   \<and> depth_step_spec
          (card (\<Union>r\<in>set (analyze_repositories boundary_inputs). fst ` set (languages r)))
      = 100"
proof -
  have ne: "analyze_repositories boundary_inputs \<noteq> []"
    by (simp add: boundary_repositories)
  have c: "card (\<Union>r\<in>set (analyze_repositories boundary_inputs). fst ` set (languages r)) = 5"
    using boundary_languages by (simp only: all_languages_eq)
  have "depth_step_spec 5 = 100" by (simp add: depth_step_spec_def)
  with ne c show ?thesis
    using depth_component_step [of "analyze_repositories boundary_inputs" demo_user]
    by simp
qed

text \<open>
  C10. The code-quality score of every repository the analyzer produces lies in [50,85]
  (50, plus 20 for more than one language, plus 15 for a wiki, so the clamp at 100 is
  never reached). For every non-empty list of repositories produced by the analyzer the
  code-quality component of the portfolio score, their mean, lies in [50,85] as well,
  before and after it is rounded, and so is below 100.
\<close>

theorem code_quality_between_50_and_85:
  "50 \<le> RepoScore.code_quality
        (AnalyzedRepository.score (analyze_repository now rd readme langs commits))
   \<and> RepoScore.code_quality
        (AnalyzedRepository.score (analyze_repository now rd readme langs commits)) \<le> 85
   \<and> RepoScore.code_quality
        (AnalyzedRepository.score (analyze_repository now rd readme langs commits)) =
      50 + (if 1 < dict_len langs then 20 else 0) + (if has_wiki rd then 15 else 0)
   \<and> (inputs \<noteq> [] \<longrightarrow>
        50 \<le> calculate_code_quality_score (analyze_repositories inputs)
        \<and> calculate_code_quality_score (analyze_repositories inputs) \<le> 85
        \<and> 50 \<le> Components.code_quality
              (components (calculate_portfolio_score u (analyze_repositories inputs)))
        \<and> Components.code_quality
              (components (calculate_portfolio_score u (analyze_repositories inputs))) \<le> 85
        \<and> Components.code_quality
              (components (calculate_portfolio_score u (analyze_repositories inputs))) < 100)"
proof -
  have 1: "RepoScore.code_quality
        (AnalyzedRepository.score (analyze_repository now rd readme langs commits)) =
      50 + (if 1 < dict_len langs then 20 else 0) + (if has_wiki rd then 15 else 0)"
    by (simp add: analyze_repository_sel repo_code_quality_closed code_structure_sel)
  have 2: "inputs \<noteq> [] \<Longrightarrow>
        50 \<le> calculate_code_quality_score (analyze_repositories inputs)
        \<and> calculate_code_quality_score (analyze_repositories inputs) \<le> 85"
    using code_quality_score_range [OF _ analyzed_code_quality_range, of inputs]
    by (simp add: analyze_repositories_Nil)
  have 3: "inputs \<noteq> [] \<Longrightarrow>
        50 \<le> py_round2 (calculate_code_quality_score (analyze_repositories inputs))
        \<and> py_round2 (calculate_code_quality_score (analyze_repositories inputs)) \<le> 85"
    using 2 py_round2_between [of 50 "calculate_code_quality_score (analyze_repositories inputs)" 85]
    by simp
  show ?thesis
    using 2 3 by (auto simp: 1 components_calculate)
qed

text \<open>The statement at the three example repositories, whose mean is the float 185/3.\<close>

theorem code_quality_between_50_and_85_witness:
  "boundary_inputs \<noteq> []
   \<and> calculate_code_quality_score (analyze_repositories boundary_inputs) = int_div 185 3
   \<and> 50 \<le> Components.code_quality
         (components (calculate_portfolio_score demo_user (analyze_repositories boundary_inputs)))
   \<and> Components.code_quality
         (components (calculate_portfolio_score demo_user (analyze_repositories boundary_inputs)))
       \<le> 85"
proof -
  have ne: "boundary_inputs \<noteq> []" by (simp add: boundary_inputs_def)
  show ?thesis
    using code_quality_between_50_and_85 [of 0 "demo_repo ''one'' 1 1 True" short_readme "[]" "[]"
        boundary_inputs demo_user] ne boundary_code_quality
    by simp
qed

section \<open>The score of a repository\<close>










section \<open>Facts about the regular expressions\<close>

lemma re_search_here: "m s \<Longrightarrow> re_search m s"
  by (cases s) simp_all

lemma re_search_append: "re_search m s \<Longrightarrow> re_search m (ps @ s)"
  by (induction ps) simp_all

lemma re_search_iff: "re_search m s = (\<exists>ps t. s = ps @ t \<and> m t)"
proof (induction s)
  case Nil
  then show ?case by simp
next
  case (Cons c cs)
  show ?case
  proof
    assume "re_search m (c # cs)"
    then consider "m (c # cs)" | "re_search m cs" by auto
    then show "\<exists>ps t. c # cs = ps @ t \<and> m t"
    proof cases
      case 1
      then show ?thesis by (intro exI [of _ "[]"] exI [of _ "c # cs"]) simp
    next
      case 2
      with Cons.IH obtain ps t where "cs = ps @ t" "m t" by auto
      then show ?thesis by (intro exI [of _ "c # ps"] exI [of _ t]) simp
    qed
  next
    assume "\<exists>ps t. c # cs = ps @ t \<and> m t"
    then obtain ps t where e: "c # cs = ps @ t" and m: "m t" by auto
    show "re_search m (c # cs)"
      unfolding e using m by (simp only: re_search_append re_search_here)
  qed
qed

lemma re_search_disj:
  "re_search (\<lambda>s. a s \<or> b s) t = (re_search a t \<or> re_search b t)"
  by (induction t) auto

lemma re_search_prefix:
  assumes "\<And>s. m s = prefix w (map f s)"
  shows "re_search m s = sublist w (map f s)"
  by (induction s) (simp_all add: assms sublist_Cons_right)

lemma ci_eq_casefold:
  assumes "(97 \<le> p \<and> p \<le> 122) \<or> p = 32"
  shows "ci_eq p c = (casefold c = p)"
  using assms by (auto simp: ci_eq_def casefold_def)

lemma lit_ci_prefix:
  assumes "\<forall>p\<in>set kw. (97 \<le> p \<and> p \<le> 122) \<or> p = 32"
  shows "lit_ci kw s = prefix kw (map casefold s)"
  using assms
proof (induction kw s rule: lit_ci.induct)
  case (1 s)
  then show ?case by simp
next
  case (2 p ps)
  then show ?case by simp
next
  case (3 p ps c cs)
  then show ?case by (simp add: ci_eq_casefold) blast
qed

lemma keyword_search:
  assumes "\<forall>p\<in>set (str kw). (97 \<le> p \<and> p \<le> 122) \<or> p = 32"
  shows "re_search (lit_ci (str kw)) text = keyword_occurs kw text"
  unfolding keyword_occurs_def
  by (rule re_search_prefix) (rule lit_ci_prefix [OF assms])

lemma three_keywords:
  assumes "\<And>s. m s = (lit_ci (str k1) s \<or> lit_ci (str k2) s \<or> lit_ci (str k3) s)"
    and "\<forall>p\<in>set (str k1). (97 \<le> p \<and> p \<le> 122) \<or> p = 32"
    and "\<forall>p\<in>set (str k2). (97 \<le> p \<and> p \<le> 122) \<or> p = 32"
    and "\<forall>p\<in>set (str k3). (97 \<le> p \<and> p \<le> 122) \<or> p = 32"
  shows "re_search m text =
     (keyword_occurs k1 text \<or> keyword_occurs k2 text \<or> keyword_occurs k3 text)"
proof -
  have "m = (\<lambda>s. lit_ci (str k1) s \<or> (lit_ci (str k2) s \<or> lit_ci (str k3) s))"
    by (rule ext) (simp add: assms(1))
  then show ?thesis
    by (simp only: re_search_disj keyword_search [OF assms(2)] keyword_search [OF assms(3)]
        keyword_search [OF assms(4)])
qed

lemma setup_re_iff:
  "re_search setup_re text =
     (keyword_occurs ''install'' text \<or> keyword_occurs ''setup'' text
      \<or> keyword_occurs ''getting started'' text)"
  by (rule three_keywords) (simp_all add: setup_re_def str_def)

lemma examples_re_iff:
  "re_search examples_re text =
     (keyword_occurs ''example'' text \<or> keyword_occurs ''usage'' text
      \<or> keyword_occurs ''demo'' text)"
  by (rule three_keywords) (simp_all add: examples_re_def str_def)

lemma api_re_iff:
  "re_search api_re text =
     (keyword_occurs ''api'' text \<or> keyword_occurs ''endpoint'' text
      \<or> keyword_occurs ''route'' text)"
  by (rule three_keywords) (simp_all add: api_re_def str_def)

lemma lit_iff: "lit w k s = (\<exists>rest. s = w @ rest \<and> k rest)"
proof (induction w k s rule: lit.induct)
  case (1 k s)
  then show ?case by simp
next
  case (2 p ps k)
  then show ?case by simp
next
  case (3 p ps k c cs)
  then show ?case by auto
qed

lemma dot_star_iff:
  "dot_star k s = (\<exists>a rest. s = a @ rest \<and> 10 \<notin> set a \<and> k rest)"
proof (induction s)
  case Nil
  then show ?case by simp
next
  case (Cons c cs)
  show ?case
  proof
    assume "dot_star k (c # cs)"
    then consider "k (c # cs)" | "c \<noteq> 10" "dot_star k cs" by auto
    then show "\<exists>a rest. c # cs = a @ rest \<and> 10 \<notin> set a \<and> k rest"
    proof cases
      case 1
      then show ?thesis by (intro exI [of _ "[]"] exI [of _ "c # cs"]) simp
    next
      case 2
      with Cons.IH obtain a rest where "cs = a @ rest" "10 \<notin> set a" "k rest" by auto
      with 2(1) show ?thesis by (intro exI [of _ "c # a"] exI [of _ rest]) simp
    qed
  next
    assume "\<exists>a rest. c # cs = a @ rest \<and> 10 \<notin> set a \<and> k rest"
    then obtain a rest where e: "c # cs = a @ rest" and a: "10 \<notin> set a" and k: "k rest"
      by auto
    show "dot_star k (c # cs)"
    proof (cases a)
      case Nil
      with e have "rest = c # cs" by simp
      with k show ?thesis by simp
    next
      case (Cons x xs)
      with e a have "c \<noteq> 10" "cs = xs @ rest" "10 \<notin> set xs" by auto
      with k Cons.IH show ?thesis by auto
    qed
  qed
qed

lemma badges_re_iff:
  "badges_re t =
     (\<exists>alt link ss. t = str ''!['' @ alt @ str '']('' @ link @ str '')'' @ ss
        \<and> 10 \<notin> set alt \<and> 10 \<notin> set link)"
proof
  assume "badges_re t"
  then obtain r1 where 1: "t = str ''!['' @ r1"
    and d1: "dot_star (lit (str '']('') (dot_star (lit (str '')'') (\<lambda>s. True)))) r1"
    unfolding badges_re_def lit_iff [of "str ''![''"] by blast
  from d1 obtain alt r2 where 2: "r1 = alt @ r2" and a: "10 \<notin> set alt"
    and l2: "lit (str '']('') (dot_star (lit (str '')'') (\<lambda>s. True))) r2"
    unfolding dot_star_iff [of "lit (str '']('') (dot_star (lit (str '')'') (\<lambda>s. True)))"]
    by blast
  from l2 obtain r3 where 3: "r2 = str '']('' @ r3"
    and d3: "dot_star (lit (str '')'') (\<lambda>s. True)) r3"
    unfolding lit_iff [of _ "dot_star (lit (str '')'') (\<lambda>s. True))"]
    by blast
  from d3 obtain link r4 where 4: "r3 = link @ r4" and b: "10 \<notin> set link"
    and l4: "lit (str '')'') (\<lambda>s. True) r4"
    unfolding dot_star_iff [of "lit (str '')'') (\<lambda>s. True)"] by blast
  from l4 obtain ss where 5: "r4 = str '')'' @ ss"
    unfolding lit_iff [of _ "\<lambda>s. True"] by blast
  have "t = str ''!['' @ alt @ str '']('' @ link @ str '')'' @ ss"
    by (simp add: 1 2 3 4 5)
  with a b show "\<exists>alt link ss. t = str ''!['' @ alt @ str '']('' @ link @ str '')'' @ ss
        \<and> 10 \<notin> set alt \<and> 10 \<notin> set link"
    by blast
next
  assume "\<exists>alt link ss. t = str ''!['' @ alt @ str '']('' @ link @ str '')'' @ ss
        \<and> 10 \<notin> set alt \<and> 10 \<notin> set link"
  then obtain alt link ss where t: "t = str ''!['' @ alt @ str '']('' @ link @ str '')'' @ ss"
    and a: "10 \<notin> set alt" and b: "10 \<notin> set link"
    by blast
  have l4: "lit (str '')'') (\<lambda>s. True) (str '')'' @ ss)"
    unfolding lit_iff by blast
  have d3: "dot_star (lit (str '')'') (\<lambda>s. True)) (link @ str '')'' @ ss)"
    unfolding dot_star_iff [of "lit (str '')'') (\<lambda>s. True)"] using b l4 by blast
  have l2: "lit (str '']('') (dot_star (lit (str '')'') (\<lambda>s. True)))
      (str '']('' @ link @ str '')'' @ ss)"
    unfolding lit_iff [of _ "dot_star (lit (str '')'') (\<lambda>s. True))"] using d3 by blast
  have d1: "dot_star (lit (str '']('') (dot_star (lit (str '')'') (\<lambda>s. True))))
      (alt @ str '']('' @ link @ str '')'' @ ss)"
    unfolding dot_star_iff [of "lit (str '']('') (dot_star (lit (str '')'') (\<lambda>s. True)))"]
    using a l2 by blast
  show "badges_re t"
    unfolding badges_re_def t
      lit_iff [of _ "dot_star (lit (str '']('') (dot_star (lit (str '')'') (\<lambda>s. True))))"]
    using d1 by blast
qed

lemma badges_search_iff: "re_search badges_re text = image_link_on_one_line text"
proof
  assume "re_search badges_re text"
  then obtain ps t where "text = ps @ t" and "badges_re t"
    unfolding re_search_iff by blast
  then show "image_link_on_one_line text"
    unfolding badges_re_iff image_link_on_one_line_def by blast
next
  assume "image_link_on_one_line text"
  then obtain ps alt link ss
    where t: "text = ps @ str ''!['' @ alt @ str '']('' @ link @ str '')'' @ ss"
      and a: "10 \<notin> set alt" "10 \<notin> set link"
    unfolding image_link_on_one_line_def by blast
  from a have "badges_re (str ''!['' @ alt @ str '']('' @ link @ str '')'' @ ss)"
    unfolding badges_re_iff by blast
  then show "re_search badges_re text"
    unfolding t by (simp only: re_search_append re_search_here)
qed

lemma occurs_from_sublist:
  assumes "sublist w text" and "sublist (str kw) (map casefold w)"
  shows "keyword_occurs kw text"
proof -
  from assms(1) have "sublist (map casefold w) (map casefold text)" by (rule map_mono_sublist)
  with assms(2) show ?thesis
    unfolding keyword_occurs_def by (rule sublist_order.order.trans)
qed

lemma installation_is_setup:
  "sublist (str ''Installation'') text \<Longrightarrow> keyword_occurs ''install'' text"
proof (erule occurs_from_sublist)
  have "map casefold (str ''Installation'') = str ''install'' @ str ''ation''"
    by (simp add: str_def casefold_def)
  then show "sublist (str ''install'') (map casefold (str ''Installation''))"
    by (simp only: sublist_append_rightI)
qed

lemma usage_is_example:
  "sublist (str ''Usage'') text \<Longrightarrow> keyword_occurs ''usage'' text"
proof (erule occurs_from_sublist)
  have "map casefold (str ''Usage'') = str ''usage''"
    by (simp add: str_def casefold_def)
  then show "sublist (str ''usage'') (map casefold (str ''Usage''))"
    by simp
qed

section \<open>Documentation analysis\<close>

lemma documentation_empty:
  "analyze_documentation [] rd =
     \<lparr>has_readme = False, readme_length = 0, has_setup_instructions = False,
      has_examples = False, has_badges = False, has_api_documentation = None,
      quality_score = 0\<rparr>"
  by (simp add: analyze_documentation_def)

lemma documentation_flags:
  "readme \<noteq> [] \<Longrightarrow> has_readme (analyze_documentation readme rd)"
  "readme \<noteq> [] \<Longrightarrow> readme_length (analyze_documentation readme rd) = length readme"
  "readme \<noteq> [] \<Longrightarrow>
     has_setup_instructions (analyze_documentation readme rd) = re_search setup_re readme"
  "readme \<noteq> [] \<Longrightarrow>
     has_examples (analyze_documentation readme rd) = re_search examples_re readme"
  "readme \<noteq> [] \<Longrightarrow>
     has_badges (analyze_documentation readme rd) = re_search badges_re readme"
  "readme \<noteq> [] \<Longrightarrow>
     has_api_documentation (analyze_documentation readme rd) = Some (re_search api_re readme)"
  by (simp_all add: analyze_documentation_def Let_def)

lemma scenario_score:
  assumes len: "length readme = 600"
    and inst: "sublist (str ''Installation'') readme"
    and usage: "sublist (str ''Usage'') readme"
    and img: "image_link_on_one_line readme"
    and noapi: "\<not> (keyword_occurs ''api'' readme \<or> keyword_occurs ''endpoint'' readme
               \<or> keyword_occurs ''route'' readme)"
  shows "quality_score (analyze_documentation readme rd) = 85"
proof -
  have ne: "readme \<noteq> []" using len by auto
  have s: "re_search setup_re readme"
    using installation_is_setup [OF inst] by (simp add: setup_re_iff)
  have e: "re_search examples_re readme"
    using usage_is_example [OF usage] by (simp add: examples_re_iff)
  have b: "re_search badges_re readme"
    using img by (simp add: badges_search_iff)
  have a: "\<not> re_search api_re readme"
    using noapi by (simp add: api_re_iff)
  show ?thesis
    using ne len s e b a by (simp add: quality_score_closed)
qed

text \<open>
  C4 (amended). The documentation analysis of an empty README has quality score 0, the
  README flag and its three detector flags false, and no API flag. For a non-empty README
  the quality score is 30 for a length above 500 or else 15 for a length above 200, plus
  20 when a setup keyword (install, setup, getting started) occurs ignoring case, plus 20
  for a usage keyword (example, usage, demo), plus 15 for a markdown image link written on
  one line (no line break in its description or its target), plus 15 for an API keyword
  (api, endpoint, route), clamped to 100, and the flags record what was found. In
  particular a README of length 600 that contains "Installation", "Usage" and an image
  link on one line, and no API keyword, scores exactly 85.
\<close>

theorem documentation_quality_score:
  "analyze_documentation [] rd =
     \<lparr>has_readme = False, readme_length = 0, has_setup_instructions = False,
      has_examples = False, has_badges = False, has_api_documentation = None,
      quality_score = 0\<rparr>
   \<and> (readme \<noteq> [] \<longrightarrow>
        quality_score (analyze_documentation readme rd) =
          min ((if 500 < length readme then 30 else if 200 < length readme then 15 else 0)
               + (if keyword_occurs ''install'' readme \<or> keyword_occurs ''setup'' readme
                     \<or> keyword_occurs ''getting started'' readme then 20 else 0)
               + (if keyword_occurs ''example'' readme \<or> keyword_occurs ''usage'' readme
                     \<or> keyword_occurs ''demo'' readme then 20 else 0)
               + (if image_link_on_one_line readme then 15 else 0)
               + (if keyword_occurs ''api'' readme \<or> keyword_occurs ''endpoint'' readme
                     \<or> keyword_occurs ''route'' readme then 15 else 0)) 100
        \<and> has_readme (analyze_documentation readme rd)
        \<and> readme_length (analyze_documentation readme rd) = length readme
        \<and> has_setup_instructions (analyze_documentation readme rd) =
            (keyword_occurs ''install'' readme \<or> keyword_occurs ''setup'' readme
             \<or> keyword_occurs ''getting started'' readme)
        \<and> has_examples (analyze_documentation readme rd) =
            (keyword_occurs ''example'' readme \<or> keyword_occurs ''usage'' readme
             \<or> keyword_occurs ''demo'' readme)
        \<and> has_badges (analyze_documentation readme rd) = image_link_on_one_line readme
        \<and> has_api_documentation (analyze_documentation readme rd) =
            Some (keyword_occurs ''api'' readme \<or> keyword_occurs ''endpoint'' readme
                  \<or> keyword_occurs ''route'' readme))
   \<and> (length readme = 600 \<and> sublist (str ''Installation'') readme
        \<and> sublist (str ''Usage'') readme
        \<and> image_link_on_one_line readme
        \<and> \<not> (keyword_occurs ''api'' readme \<or> keyword_occurs ''endpoint'' readme
               \<or> keyword_occurs ''route'' readme) \<longrightarrow>
        quality_score (analyze_documentation readme rd) = 85)"
proof -
  have b: "readme \<noteq> [] \<Longrightarrow> quality_score (analyze_documentation readme rd) =
          min ((if 500 < length readme then 30 else if 200 < length readme then 15 else 0)
               + (if keyword_occurs ''install'' readme \<or> keyword_occurs ''setup'' readme
                     \<or> keyword_occurs ''getting started'' readme then 20 else 0)
               + (if keyword_occurs ''example'' readme \<or> keyword_occurs ''usage'' readme
                     \<or> keyword_occurs ''demo'' readme then 20 else 0)
               + (if image_link_on_one_line readme then 15 else 0)
               + (if keyword_occurs ''api'' readme \<or> keyword_occurs ''endpoint'' readme
                     \<or> keyword_occurs ''route'' readme then 15 else 0)) 100"
    by (simp add: quality_score_closed setup_re_iff [symmetric] examples_re_iff [symmetric]
        api_re_iff [symmetric] badges_search_iff [symmetric])
  show ?thesis
    using documentation_empty [of rd] b documentation_flags [of readme rd]
      scenario_score [of readme rd]
    unfolding setup_re_iff examples_re_iff api_re_iff badges_search_iff
    by blast
qed

lemma api_re_x: "re_search api_re (replicate n 120) = False"
  by (induction n) (simp_all add: api_re_def str_def ci_eq_def)

lemma badges_re_x: "re_search badges_re (replicate n 120) = False"
  by (induction n) (simp_all add: badges_re_def str_def)

lemma long_readme_facts:
  "length long_readme = 600"
  "sublist (str ''Installation'') long_readme"
  "sublist (str ''Usage'') long_readme"
  "image_link_on_one_line long_readme"
  "\<not> re_search api_re long_readme"
proof -
  show "length long_readme = 600"
    by (simp add: long_readme_def str_def)
  have "long_readme = str ''# Tool  ## '' @ str ''Installation''
      @ (str ''  pip install tool  ## Usage  tool run  ![logo](logo.png) '' @ replicate 519 120)"
    by (simp add: long_readme_def str_def)
  then show "sublist (str ''Installation'') long_readme"
    unfolding sublist_def by blast
  have "long_readme = str ''# Tool  ## Installation  pip install tool  ## '' @ str ''Usage''
      @ (str ''  tool run  ![logo](logo.png) '' @ replicate 519 120)"
    by (simp add: long_readme_def str_def)
  then show "sublist (str ''Usage'') long_readme"
    unfolding sublist_def by blast
  have "long_readme =
      str ''# Tool  ## Installation  pip install tool  ## Usage  tool run  ''
      @ str ''!['' @ str ''logo'' @ str '']('' @ str ''logo.png'' @ str '')''
      @ (str '' '' @ replicate 519 120)"
    by (simp add: long_readme_def str_def)
  moreover have "10 \<notin> set (str ''logo'')" "10 \<notin> set (str ''logo.png'')"
    by (simp_all add: str_def)
  ultimately show "image_link_on_one_line long_readme"
    unfolding image_link_on_one_line_def by blast
  show "\<not> re_search api_re long_readme"
    by (simp add: long_readme_def str_def api_re_x)
      (simp add: api_re_def str_def ci_eq_def)
qed

lemma plain_readme_facts:
  "plain_readme \<noteq> []" "length plain_readme = 5"
  "\<not> re_search setup_re plain_readme" "\<not> re_search examples_re plain_readme"
  "\<not> re_search badges_re plain_readme" "\<not> re_search api_re plain_readme"
  by (simp_all add: plain_readme_def str_def setup_re_def examples_re_def badges_re_def
      api_re_def ci_eq_def)

text \<open>
  The statement at the example README of 600 code points, which scores 85, and at the
  README of five letters, in which nothing is found and which scores 0.
\<close>

theorem documentation_quality_score_witness:
  "length long_readme = 600
   \<and> sublist (str ''Installation'') long_readme
   \<and> sublist (str ''Usage'') long_readme
   \<and> image_link_on_one_line long_readme
   \<and> \<not> (keyword_occurs ''api'' long_readme \<or> keyword_occurs ''endpoint'' long_readme
          \<or> keyword_occurs ''route'' long_readme)
   \<and> quality_score (analyze_documentation long_readme (demo_repo ''one'' 1 1 True)) = 85
   \<and> plain_readme \<noteq> []
   \<and> \<not> has_setup_instructions (analyze_documentation plain_readme (demo_repo ''one'' 1 1 True))
   \<and> \<not> has_examples (analyze_documentation plain_readme (demo_repo ''one'' 1 1 True))
   \<and> \<not> has_badges (analyze_documentation plain_readme (demo_repo ''one'' 1 1 True))
   \<and> quality_score (analyze_documentation plain_readme (demo_repo ''one'' 1 1 True)) = 0"
proof -
  have noapi: "\<not> (keyword_occurs ''api'' long_readme \<or> keyword_occurs ''endpoint'' long_readme
          \<or> keyword_occurs ''route'' long_readme)"
    using long_readme_facts(5) by (simp add: api_re_iff)
  have p: "\<not> (keyword_occurs ''install'' plain_readme \<or> keyword_occurs ''setup'' plain_readme
          \<or> keyword_occurs ''getting started'' plain_readme)"
    "\<not> (keyword_occurs ''example'' plain_readme \<or> keyword_occurs ''usage'' plain_readme
          \<or> keyword_occurs ''demo'' plain_readme)"
    "\<not> image_link_on_one_line plain_readme"
    "\<not> (keyword_occurs ''api'' plain_readme \<or> keyword_occurs ''endpoint'' plain_readme
          \<or> keyword_occurs ''route'' plain_readme)"
    using plain_readme_facts(3-6)
    by (simp_all add: setup_re_iff examples_re_iff api_re_iff badges_search_iff)
  have 1: "quality_score (analyze_documentation long_readme (demo_repo ''one'' 1 1 True)) = 85"
    using documentation_quality_score [of "demo_repo ''one'' 1 1 True" long_readme]
      long_readme_facts(1-4) noapi
    by blast
  have 2: "\<not> has_setup_instructions (analyze_documentation plain_readme (demo_repo ''one'' 1 1 True))
   \<and> \<not> has_examples (analyze_documentation plain_readme (demo_repo ''one'' 1 1 True))
   \<and> \<not> has_badges (analyze_documentation plain_readme (demo_repo ''one'' 1 1 True))
   \<and> quality_score (analyze_documentation plain_readme (demo_repo ''one'' 1 1 True)) = 0"
    using documentation_quality_score [of "demo_repo ''one'' 1 1 True" plain_readme]
      plain_readme_facts(1,2) p
    by simp
  show ?thesis
    using long_readme_facts(1-4) noapi 1 plain_readme_facts(1) 2 by blast
qed

lemma multi_line_readme_facts:
  "length multi_line_readme = 600"
  "sublist (str ''Installation'') multi_line_readme"
  "sublist (str ''Usage'') multi_line_readme"
  "sublist (str ''![logo'' @ [10] @ str ''banner](logo.png)'') multi_line_readme"
  "re_search setup_re multi_line_readme"
  "re_search examples_re multi_line_readme"
  "\<not> re_search badges_re multi_line_readme"
  "\<not> re_search api_re multi_line_readme"
proof -
  show "length multi_line_readme = 600"
    by (simp add: multi_line_readme_def str_def)
  have "multi_line_readme = str ''# Tool  ## '' @ str ''Installation''
      @ (str ''  pip install tool  ## Usage  tool run  ![logo'' @ [10]
         @ str ''banner](logo.png) '' @ replicate 512 120)"
    by (simp add: multi_line_readme_def str_def)
  then show i: "sublist (str ''Installation'') multi_line_readme"
    unfolding sublist_def by blast
  have "multi_line_readme = str ''# Tool  ## Installation  pip install tool  ## '' @ str ''Usage''
      @ (str ''  tool run  ![logo'' @ [10] @ str ''banner](logo.png) '' @ replicate 512 120)"
    by (simp add: multi_line_readme_def str_def)
  then show u: "sublist (str ''Usage'') multi_line_readme"
    unfolding sublist_def by blast
  have "multi_line_readme =
      str ''# Tool  ## Installation  pip install tool  ## Usage  tool run  ''
      @ (str ''![logo'' @ [10] @ str ''banner](logo.png)'')
      @ (str '' '' @ replicate 512 120)"
    by (simp add: multi_line_readme_def str_def)
  then show "sublist (str ''![logo'' @ [10] @ str ''banner](logo.png)'') multi_line_readme"
    unfolding sublist_def by blast
  show "re_search setup_re multi_line_readme"
    using installation_is_setup [OF i] by (simp add: setup_re_iff)
  show "re_search examples_re multi_line_readme"
    using usage_is_example [OF u] by (simp add: examples_re_iff)
  show "\<not> re_search badges_re multi_line_readme"
    by (simp add: multi_line_readme_def str_def badges_re_x)
      (simp add: badges_re_def str_def)
  show "\<not> re_search api_re multi_line_readme"
    by (simp add: multi_line_readme_def str_def api_re_x)
      (simp add: api_re_def str_def ci_eq_def)
qed

text \<open>
  C4 (counterexample). A README of length 600 that contains "Installation", "Usage" and
  the image link \<open>![logo\<close>, line break, \<open>banner](logo.png)\<close>, and no API keyword: the image
  pattern does not match across the line break, and the README scores 70, not 85.
\<close>

theorem multi_line_image_counterexample:
  "length multi_line_readme = 600
   \<and> sublist (str ''Installation'') multi_line_readme
   \<and> sublist (str ''Usage'') multi_line_readme
   \<and> sublist (str ''![logo'' @ [10] @ str ''banner](logo.png)'') multi_line_readme
   \<and> \<not> (keyword_occurs ''api'' multi_line_readme \<or> keyword_occurs ''endpoint'' multi_line_readme
          \<or> keyword_occurs ''route'' multi_line_readme)
   \<and> \<not> has_badges (analyze_documentation multi_line_readme (demo_repo ''one'' 1 1 True))
   \<and> quality_score (analyze_documentation multi_line_readme (demo_repo ''one'' 1 1 True)) = 70
   \<and> quality_score (analyze_documentation multi_line_readme (demo_repo ''one'' 1 1 True)) \<noteq> 85"
proof -
  have ne: "multi_line_readme \<noteq> []" using multi_line_readme_facts(1) by auto
  have noapi: "\<not> (keyword_occurs ''api'' multi_line_readme
      \<or> keyword_occurs ''endpoint'' multi_line_readme \<or> keyword_occurs ''route'' multi_line_readme)"
    using multi_line_readme_facts(8) by (simp add: api_re_iff)
  have q: "quality_score (analyze_documentation multi_line_readme (demo_repo ''one'' 1 1 True)) = 70"
    using ne multi_line_readme_facts by (simp add: quality_score_closed)
  have b: "\<not> has_badges (analyze_documentation multi_line_readme (demo_repo ''one'' 1 1 True))"
    using ne multi_line_readme_facts(7) by (simp add: documentation_flags)
  show ?thesis
    using multi_line_readme_facts(1-4) noapi b q by simp
qed

text \<open>
  C9. The documentation analysis of an empty README has the six keys has_readme,
  readme_length, has_setup_instructions, has_examples, has_badges and quality_score and
  no key has_api_documentation; that of a non-empty README has the key
  has_api_documentation, which records whether an API keyword was found.
\<close>

theorem api_documentation_key:
  "analyze_documentation [] rd =
     \<lparr>has_readme = False, readme_length = 0, has_setup_instructions = False,
      has_examples = False, has_badges = False, has_api_documentation = None,
      quality_score = 0\<rparr>
   \<and> has_api_documentation (analyze_documentation [] rd) = None
   \<and> (readme \<noteq> [] \<longrightarrow>
        has_api_documentation (analyze_documentation readme rd) \<noteq> None
        \<and> has_api_documentation (analyze_documentation readme rd)
            = Some (re_search api_re readme))"
  by (simp add: documentation_empty documentation_flags)

text \<open>The statement at the short example README, which has an API keyword.\<close>

theorem api_documentation_key_witness:
  "short_readme \<noteq> []
   \<and> has_api_documentation (analyze_documentation [] (demo_repo ''one'' 1 1 True)) = None
   \<and> has_api_documentation (analyze_documentation short_readme (demo_repo ''one'' 1 1 True))
       = Some True"
  using api_documentation_key [of "demo_repo ''one'' 1 1 True" short_readme]
    short_readme_detect
  by simp

section \<open>Activity analysis\<close>

lemma activity_empty:
  "analyze_activity now [] rd =
     \<lparr>total_commits_recent = 0, commit_frequency = 0, last_commit_date = None,
      days_since_last_commit = None, is_active = False, activity_score = 0\<rparr>"
  by (simp add: analyze_activity_def)

lemma timedelta_days_self: "timedelta_days a a = 0"
  by (simp add: timedelta_days_def)

lemma activity_nonempty:
  assumes "commits \<noteq> []"
  shows "analyze_activity now commits rd =
     (let n = length commits;
          sp = timedelta_days (date (hd commits)) (date (last commits));
          freq = (if 0 < sp then int_div (int n) sp else of_nat n);
          active = (timedelta_days now (date (hd commits)) < 30)
      in \<lparr>total_commits_recent = n,
          commit_frequency = (if 0 < sp then py_round2 freq else of_nat n),
          last_commit_date = Some (date (hd commits)),
          days_since_last_commit = Some (timedelta_days now (date (hd commits))),
          is_active = active,
          activity_score =
            min ((if active then 40 else 0)
                 + (if fl (5 / 10) < freq then 30 else if fl (1 / 10) < freq then 15 else 0)
                 + min (int n) 30) 100\<rparr>)"
proof (cases "1 < length commits")
  case True
  then show ?thesis
    using assms
    by (simp add: analyze_activity_def Let_def ACTIVE_DAYS_THRESHOLD_def hd_map last_map)
next
  case False
  with assms obtain c where c: "commits = [c]"
    by (cases commits) auto
  show ?thesis
    by (simp add: c analyze_activity_def Let_def ACTIVE_DAYS_THRESHOLD_def timedelta_days_self)
qed

lemma newest_first_hd:
  fixes xs :: "int list"
  assumes "sorted (rev xs)" and "xs \<noteq> []"
  shows "hd xs = Max (set xs)"
proof -
  from assms(2) obtain y ys where e: "xs = y # ys" by (cases xs) auto
  with assms(1) have "\<forall>z\<in>set ys. z \<le> y" by (simp add: sorted_append)
  then have "Max (set (y # ys)) = y" by (intro Max_eqI) auto
  with e show ?thesis by simp
qed

lemma newest_first_last:
  fixes xs :: "int list"
  assumes "sorted (rev xs)" and "xs \<noteq> []"
  shows "last xs = Min (set xs)"
  using assms
proof (induction xs)
  case Nil
  then show ?case by simp
next
  case (Cons y ys)
  show ?case
  proof (cases "ys = []")
    case True
    then show ?thesis by simp
  next
    case False
    from Cons.prems(1) have s: "sorted (rev ys)" and le: "\<forall>z\<in>set ys. z \<le> y"
      by (simp_all add: sorted_append)
    from Cons.IH [OF s False] have l: "last ys = Min (set ys)" .
    have "Min (set ys) \<in> set ys" using False by (intro Min_in) auto
    with le have "Min (set ys) \<le> y" by blast
    then have "min y (Min (set ys)) = Min (set ys)" by (simp add: min_def)
    moreover have "Min (insert y (set ys)) = min y (Min (set ys))"
      using False by (intro Min_insert) simp_all
    ultimately have "Min (set (y # ys)) = Min (set ys)" by simp
    with l False show ?thesis by simp
  qed
qed

text \<open>
  The doubles next to the two thresholds: a quotient of a count by fewer than \<open>2 ^ 40\<close>
  days that exceeds a threshold exceeds it by enough to round above the threshold's
  double.
\<close>

lemma threshold_floats:
  "fl (1099511627777 / 2199023255552) = 1099511627777 / 2199023255552"
  "fl (1099511627777 / 10995116277760) = 7205759403799347 / 72057594037927936"
  by code_simp+

lemma frequency_above_half:
  assumes "0 \<le> n" "0 < sp" "sp < 2 ^ 40"
  shows "(fl (5 / 10) < int_div n sp) = (1 / 2 < (of_int n :: rat) / of_int sp)"
proof
  assume a: "fl (5 / 10) < int_div n sp"
  show "1 / 2 < (of_int n :: rat) / of_int sp"
  proof (rule ccontr)
    assume "\<not> 1 / 2 < (of_int n :: rat) / of_int sp"
    then have le: "(of_int n :: rat) / of_int sp \<le> 1 / 2" by simp
    have "0 \<le> (of_int n :: rat) / of_int sp" using assms by simp
    then have "fl (of_int n / of_int sp) \<le> fl (1 / 2)" using le by (rule fl_mono)
    with a show False by (simp add: int_div_def)
  qed
next
  assume a: "1 / 2 < (of_int n :: rat) / of_int sp"
  have sp: "(0::rat) < of_int sp" using assms(2) by simp
  from a sp have "(of_int sp :: rat) < 2 * of_int n" by (simp add: pos_less_divide_eq)
  then have "(of_int sp :: rat) < of_int (2 * n)" by simp
  then have "sp < 2 * n" by (simp only: of_int_less_iff)
  then have "sp + 1 \<le> 2 * n" by simp
  then have "(of_int (sp + 1) :: rat) \<le> of_int (2 * n)" by (simp only: of_int_le_iff)
  then have 1: "(of_int sp :: rat) + 1 \<le> 2 * of_int n" by simp
  have "(of_int sp :: rat) < of_int (2 ^ 40)" using assms(3) by (simp only: of_int_less_iff)
  then have 2: "(of_int sp :: rat) < 2 ^ 40" by simp
  have "1 / 2 + 1 / (2 * (of_int sp :: rat)) = (of_int sp + 1) / (2 * of_int sp)"
    using sp by (simp add: field_simps)
  also have "\<dots> \<le> (2 * of_int n) / (2 * of_int sp)"
    using 1 sp by (intro divide_right_mono) simp_all
  also have "\<dots> = of_int n / of_int sp" by simp
  finally have 3: "1 / 2 + 1 / (2 * (of_int sp :: rat)) \<le> of_int n / of_int sp" .
  have "1 / (2 * 2 ^ 40) \<le> 1 / (2 * (of_int sp :: rat))"
    using sp 2 by (intro divide_left_mono) simp_all
  then have 4: "1 / 2199023255552 \<le> 1 / (2 * (of_int sp :: rat))" by simp
  have "(1099511627777 / 2199023255552 :: rat) = 1 / 2 + 1 / 2199023255552" by simp
  with 3 4 have "1099511627777 / 2199023255552 \<le> (of_int n :: rat) / of_int sp"
    by linarith
  then have "fl (1099511627777 / 2199023255552) \<le> fl (of_int n / of_int sp)"
    by (intro fl_mono) simp_all
  then show "fl (5 / 10) < int_div n sp"
    by (simp add: int_div_def threshold_floats boundary_floats)
qed

lemma frequency_above_tenth:
  assumes "0 \<le> n" "0 < sp" "sp < 2 ^ 40"
  shows "(fl (1 / 10) < int_div n sp) = (1 / 10 < (of_int n :: rat) / of_int sp)"
proof
  assume a: "fl (1 / 10) < int_div n sp"
  show "1 / 10 < (of_int n :: rat) / of_int sp"
  proof (rule ccontr)
    assume "\<not> 1 / 10 < (of_int n :: rat) / of_int sp"
    then have le: "(of_int n :: rat) / of_int sp \<le> 1 / 10" by simp
    have "0 \<le> (of_int n :: rat) / of_int sp" using assms by simp
    then have "fl (of_int n / of_int sp) \<le> fl (1 / 10)" using le by (rule fl_mono)
    with a show False by (simp add: int_div_def)
  qed
next
  assume a: "1 / 10 < (of_int n :: rat) / of_int sp"
  have sp: "(0::rat) < of_int sp" using assms(2) by simp
  from a sp have "(of_int sp :: rat) < 10 * of_int n" by (simp add: pos_less_divide_eq)
  then have "(of_int sp :: rat) < of_int (10 * n)" by simp
  then have "sp < 10 * n" by (simp only: of_int_less_iff)
  then have "sp + 1 \<le> 10 * n" by simp
  then have "(of_int (sp + 1) :: rat) \<le> of_int (10 * n)" by (simp only: of_int_le_iff)
  then have 1: "(of_int sp :: rat) + 1 \<le> 10 * of_int n" by simp
  have "(of_int sp :: rat) < of_int (2 ^ 40)" using assms(3) by (simp only: of_int_less_iff)
  then have 2: "(of_int sp :: rat) < 2 ^ 40" by simp
  have "1 / 10 + 1 / (10 * (of_int sp :: rat)) = (of_int sp + 1) / (10 * of_int sp)"
    using sp by (simp add: field_simps)
  also have "\<dots> \<le> (10 * of_int n) / (10 * of_int sp)"
    using 1 sp by (intro divide_right_mono) simp_all
  also have "\<dots> = of_int n / of_int sp" by simp
  finally have 3: "1 / 10 + 1 / (10 * (of_int sp :: rat)) \<le> of_int n / of_int sp" .
  have "1 / (10 * 2 ^ 40) \<le> 1 / (10 * (of_int sp :: rat))"
    using sp 2 by (intro divide_left_mono) simp_all
  then have 4: "1 / 10995116277760 \<le> 1 / (10 * (of_int sp :: rat))" by simp
  have "(1099511627777 / 10995116277760 :: rat) = 1 / 10 + 1 / 10995116277760" by simp
  with 3 4 have "1099511627777 / 10995116277760 \<le> (of_int n :: rat) / of_int sp"
    by linarith
  then have "fl (1099511627777 / 10995116277760) \<le> fl (of_int n / of_int sp)"
    by (intro fl_mono) simp_all
  then show "fl (1 / 10) < int_div n sp"
    by (simp add: int_div_def threshold_floats boundary_floats)
qed

lemma count_thresholds:
  "0 < n \<Longrightarrow> fl (5 / 10) < (of_nat n :: rat)"
  by (simp add: boundary_floats) 

lemma reported_frequency_err:
  assumes "0 < sp"
  shows "\<bar>py_round2 (int_div (int n) sp) - of_nat n / of_int sp\<bar>
           \<le> 1 / 200 + (of_nat n + 1) / 2 ^ 51"
proof -
  define q :: rat where "q = of_nat n / of_int sp"
  define y where "y = fl q"
  define r where "r = round2 y"
  have sp: "(1::rat) \<le> of_int sp" using assms by (simp add: of_int_1_le_iff [symmetric] del: of_int_1_le_iff)
  have q0: "0 \<le> q" using assms by (simp add: q_def)
  have "q \<le> of_nat n / 1" unfolding q_def using sp by (intro divide_left_mono) simp_all
  then have qn: "q \<le> of_nat n" by simp
  have 1: "\<bar>y - q\<bar> \<le> q / 2 ^ 53" using fl_err [of q] q0 by (simp add: y_def)
  have 2: "\<bar>r - y\<bar> \<le> 1 / 200" using round2_err [of y] by (simp add: r_def)
  have 3: "\<bar>fl r - r\<bar> \<le> \<bar>r\<bar> / 2 ^ 53" by (rule fl_err)
  have "q / 2 ^ 53 \<le> of_nat n / 2 ^ 53" using qn by (simp add: divide_right_mono)
  with 1 have 4: "\<bar>y - q\<bar> \<le> of_nat n / 2 ^ 53" by simp
  have "(of_nat n :: rat) / 2 ^ 53 \<le> of_nat n" by (simp add: field_simps)
  with 4 have 5: "\<bar>y - q\<bar> \<le> of_nat n" by simp
  have "\<bar>r\<bar> \<le> 2 * of_nat n + 1" using 2 5 qn q0 by linarith
  then have "\<bar>r\<bar> / 2 ^ 53 \<le> (2 * of_nat n + 1) / 2 ^ 53" by (simp add: divide_right_mono)
  with 3 have 6: "\<bar>fl r - r\<bar> \<le> (2 * of_nat n + 1) / 2 ^ 53" by simp
  have "\<bar>fl r - q\<bar> \<le> 1 / 200 + (of_nat n / 2 ^ 53 + (2 * of_nat n + 1) / 2 ^ 53)"
    using 2 4 6 by linarith
  also have "of_nat n / 2 ^ 53 + (2 * of_nat n + 1) / 2 ^ 53 \<le> ((of_nat n :: rat) + 1) / 2 ^ 51"
    by (simp add: field_simps)
  finally have "\<bar>fl r - q\<bar> \<le> 1 / 200 + (of_nat n + 1) / 2 ^ 51" by simp
  then show ?thesis
    by (simp add: py_round2_def int_div_def r_def y_def q_def)
qed

lemma exact_thresholds:
  assumes "0 < n" "sp < 2 ^ 40"
  shows "(if fl (5 / 10) < (if 0 < sp then int_div (int n) sp else of_nat n) then 30
          else if fl (1 / 10) < (if 0 < sp then int_div (int n) sp else of_nat n) then 15
          else (0::int))
       = (if 1 / 2 < (if 0 < sp then (of_nat n :: rat) / of_int sp else of_nat n) then 30
          else if 1 / 10 < (if 0 < sp then (of_nat n :: rat) / of_int sp else of_nat n) then 15
          else 0)"
proof (cases "0 < sp")
  case True
  have n: "0 \<le> int n" by simp
  show ?thesis
    using True frequency_above_half [OF n True assms(2)]
      frequency_above_tenth [OF n True assms(2)]
    by simp
next
  case False
  have "(1::rat) \<le> of_nat n" using assms(1) by simp
  then have "(1 / 2 :: rat) < of_nat n" by simp
  then show ?thesis using False by (simp add: boundary_floats)
qed

text \<open>
  C5 (amended). With no commit the activity analysis has activity score 0, is not active,
  has last_commit_date null, commit count 0 and frequency 0. Otherwise, with the span
  being the whole days from the commit listed last to the commit listed first (the oldest
  and the newest commit when the list is newest first), the frequency is the double
  nearest to the commit count divided by the span, or the count itself when the span is
  not positive; the reported commit_frequency is that frequency rounded to two decimals
  (the count itself when the span is not positive), which is within 0.005 and a rounding
  error of the exact quotient; is_active holds iff the whole days from the commit listed
  first to the current time are fewer than the threshold of 30; and the activity score is
  40 if active, plus 30 if the unrounded frequency exceeds the double 0.5 or else 15 if it
  exceeds the double 0.1, plus min(commit count, 30), clamped to 100. For a span of fewer
  than \<open>2 ^ 40\<close> days the two comparisons agree with those of the exact quotient with 1/2
  and 1/10.
\<close>

theorem activity_analysis_formula:
  "analyze_activity now [] rd =
     \<lparr>total_commits_recent = 0, commit_frequency = 0, last_commit_date = None,
      days_since_last_commit = None, is_active = False, activity_score = 0\<rparr>
   \<and> (commits \<noteq> [] \<longrightarrow>
        (let n = length commits;
             first_listed = date (hd commits);
             last_listed = date (last commits);
             sp = timedelta_days first_listed last_listed;
             freq = (if 0 < sp then int_div (int n) sp else of_nat n);
             exact = (if 0 < sp then of_nat n / of_int sp else of_nat n);
             a = analyze_activity now commits rd
         in total_commits_recent a = n
            \<and> commit_frequency a = (if 0 < sp then py_round2 freq else of_nat n)
            \<and> \<bar>commit_frequency a - exact\<bar> \<le> 1 / 200 + (of_nat n + 1) / 2 ^ 51
            \<and> last_commit_date a = Some first_listed
            \<and> days_since_last_commit a = Some (timedelta_days now first_listed)
            \<and> is_active a = (timedelta_days now first_listed < ACTIVE_DAYS_THRESHOLD)
            \<and> ACTIVE_DAYS_THRESHOLD = 30
            \<and> activity_score a =
                min ((if is_active a then 40 else 0)
                     + (if fl (5 / 10) < freq then 30 else if fl (1 / 10) < freq then 15 else 0)
                     + min (int n) 30) 100
            \<and> (sp < 2 ^ 40 \<longrightarrow>
                 activity_score a =
                   min ((if is_active a then 40 else 0)
                        + (if 1 / 2 < exact then 30 else if 1 / 10 < exact then 15 else 0)
                        + min (int n) 30) 100)))
   \<and> (commits \<noteq> [] \<and> sorted (rev (map date commits)) \<longrightarrow>
        date (hd commits) = Max (set (map date commits))
        \<and> date (last commits) = Min (set (map date commits)))"
proof -
  define n where "n = length commits"
  define sp where "sp = timedelta_days (date (hd commits)) (date (last commits))"
  define a where "a = analyze_activity now commits rd"
  define freq :: rat where "freq = (if 0 < sp then int_div (int n) sp else of_nat n)"
  define exact :: rat where "exact = (if 0 < sp then of_nat n / of_int sp else of_nat n)"
  have 2: "total_commits_recent a = n
            \<and> commit_frequency a = (if 0 < sp then py_round2 freq else of_nat n)
            \<and> \<bar>commit_frequency a - exact\<bar> \<le> 1 / 200 + (of_nat n + 1) / 2 ^ 51
            \<and> last_commit_date a = Some (date (hd commits))
            \<and> days_since_last_commit a = Some (timedelta_days now (date (hd commits)))
            \<and> is_active a = (timedelta_days now (date (hd commits)) < ACTIVE_DAYS_THRESHOLD)
            \<and> ACTIVE_DAYS_THRESHOLD = 30
            \<and> activity_score a =
                min ((if is_active a then 40 else 0)
                     + (if fl (5 / 10) < freq then 30 else if fl (1 / 10) < freq then 15 else 0)
                     + min (int n) 30) 100
            \<and> (sp < 2 ^ 40 \<longrightarrow>
                 activity_score a =
                   min ((if is_active a then 40 else 0)
                        + (if 1 / 2 < exact then 30 else if 1 / 10 < exact then 15 else 0)
                        + min (int n) 30) 100)"
    if ne: "commits \<noteq> []"
  proof -
    have n0: "0 < n" using ne by (simp add: n_def)
    have r: "a = \<lparr>total_commits_recent = n,
          commit_frequency = (if 0 < sp then py_round2 freq else of_nat n),
          last_commit_date = Some (date (hd commits)),
          days_since_last_commit = Some (timedelta_days now (date (hd commits))),
          is_active = (timedelta_days now (date (hd commits)) < 30),
          activity_score =
            min ((if timedelta_days now (date (hd commits)) < 30 then 40 else 0)
                 + (if fl (5 / 10) < freq then 30 else if fl (1 / 10) < freq then 15 else 0)
                 + min (int n) 30) 100\<rparr>"
      unfolding a_def activity_nonempty [OF ne] Let_def n_def sp_def freq_def by (rule refl)
    have e: "\<bar>commit_frequency a - exact\<bar> \<le> 1 / 200 + (of_nat n + 1) / 2 ^ 51"
    proof (cases "0 < sp")
      case True
      then show ?thesis
        using reported_frequency_err [OF True, of n] by (simp add: r exact_def freq_def)
    next
      case False
      have "(0::rat) \<le> (of_nat n + 1) / 2 ^ 51" by simp
      then show ?thesis using False by (simp add: r exact_def)
    qed
    have x: "sp < 2 ^ 40 \<Longrightarrow>
        (if fl (5 / 10) < freq then 30 else if fl (1 / 10) < freq then 15 else (0::int))
        = (if 1 / 2 < exact then 30 else if 1 / 10 < exact then 15 else 0)"
      unfolding freq_def exact_def using n0 by (rule exact_thresholds)
    have s: "activity_score a =
                min ((if is_active a then 40 else 0)
                     + (if fl (5 / 10) < freq then 30 else if fl (1 / 10) < freq then 15 else 0)
                     + min (int n) 30) 100"
      by (simp add: r)
    have t: "total_commits_recent a = n
            \<and> commit_frequency a = (if 0 < sp then py_round2 freq else of_nat n)
            \<and> last_commit_date a = Some (date (hd commits))
            \<and> days_since_last_commit a = Some (timedelta_days now (date (hd commits)))
            \<and> is_active a = (timedelta_days now (date (hd commits)) < ACTIVE_DAYS_THRESHOLD)
            \<and> ACTIVE_DAYS_THRESHOLD = 30"
      by (simp add: r ACTIVE_DAYS_THRESHOLD_def)
    show ?thesis
      using t e s x by presburger
  qed
  have 3: "commits \<noteq> [] \<and> sorted (rev (map date commits)) \<Longrightarrow>
        date (hd commits) = Max (set (map date commits))
        \<and> date (last commits) = Min (set (map date commits))"
    using newest_first_hd [of "map date commits"] newest_first_last [of "map date commits"]
    by (simp add: hd_map last_map)
  show ?thesis
    unfolding Let_def
    using activity_empty [of now rd] 2 3
    unfolding n_def sp_def a_def freq_def exact_def
    by blast
qed

lemma activity_floats:
  "int_div 3 7 = 7720456504063707 / 18014398509481984"
  "py_round2 (7720456504063707 / 18014398509481984) = 7746191359077253 / 18014398509481984"
  "int_div 3 5 = 5404319552844595 / 9007199254740992"
  "py_round2 (5404319552844595 / 9007199254740992) = 5404319552844595 / 9007199254740992"
  "int_div 2 80 = 3602879701896397 / 144115188075855872"
  "py_round2 (3602879701896397 / 144115188075855872) = 1080863910568919 / 36028797018963968"
  "fl (3 / 100) = 1080863910568919 / 36028797018963968"
  by code_simp+

lemma week_commits_activity:
  "analyze_activity (day 40) week_commits rd =
     \<lparr>total_commits_recent = 3, commit_frequency = fl (43 / 100),
      last_commit_date = Some (day 7), days_since_last_commit = Some 33,
      is_active = False, activity_score = 18\<rparr>"
  by (simp add: activity_nonempty week_commits_def Let_def day_def timedelta_days_def
      activity_floats boundary_floats)

lemma unordered_commits_activity:
  "analyze_activity (day 40) unordered_commits rd =
     \<lparr>total_commits_recent = 3, commit_frequency = fl (3 / 5),
      last_commit_date = Some (day 5), days_since_last_commit = Some 35,
      is_active = False, activity_score = 33\<rparr>"
  by (simp add: activity_nonempty unordered_commits_def Let_def day_def timedelta_days_def
      activity_floats boundary_floats)

lemma commit_frequency_spec_examples:
  "commit_frequency_spec week_commits = 3 / 7"
  "commit_frequency_spec unordered_commits = 3 / 10"
  by (simp_all add: commit_frequency_spec_def week_commits_def unordered_commits_def Let_def
      day_def timedelta_days_def)

text \<open>
  C5 (counterexample). Three commits at days 7, 3 and 0, listed newest first: the count
  over the span is 3/7, the reported commit_frequency is the double 0.43. Three commits at
  days 5, 10 and 0: the oldest and the newest commit are 10 days apart, which gives 3/10
  and an activity score of 15 + 3 = 18, but the reported commit_frequency is the double
  0.6 and the activity score is 33.
\<close>

theorem commit_frequency_counterexample:
  "commit_frequency (analyze_activity (day 40) week_commits (demo_repo ''one'' 1 1 True))
     = fl (43 / 100)
   \<and> commit_frequency_spec week_commits = 3 / 7
   \<and> commit_frequency (analyze_activity (day 40) week_commits (demo_repo ''one'' 1 1 True))
     \<noteq> commit_frequency_spec week_commits
   \<and> commit_frequency (analyze_activity (day 40) week_commits (demo_repo ''one'' 1 1 True))
     \<noteq> fl (commit_frequency_spec week_commits)
   \<and> commit_frequency (analyze_activity (day 40) unordered_commits (demo_repo ''one'' 1 1 True))
     = fl (3 / 5)
   \<and> commit_frequency_spec unordered_commits = 3 / 10
   \<and> commit_frequency (analyze_activity (day 40) unordered_commits (demo_repo ''one'' 1 1 True))
     \<noteq> commit_frequency_spec unordered_commits
   \<and> commit_frequency (analyze_activity (day 40) unordered_commits (demo_repo ''one'' 1 1 True))
     \<noteq> fl (commit_frequency_spec unordered_commits)
   \<and> activity_score (analyze_activity (day 40) unordered_commits (demo_repo ''one'' 1 1 True))
     = 33"
proof -
  have f: "fl (3 / 7) = 7720456504063707 / 18014398509481984"
    using activity_floats(1) by (simp add: int_div_def)
  have g: "fl (3 / 10) = 5404319552844595 / 18014398509481984"
    by code_simp
  show ?thesis
    by (simp add: week_commits_activity unordered_commits_activity
        commit_frequency_spec_examples boundary_floats f g)
qed

text \<open>
  The statement at the three commits listed newest first, analyzed on day 40, and at two
  commits 80 days apart, whose quotient 0.025 is reported as the double 0.03.
\<close>

theorem activity_analysis_formula_witness:
  "week_commits \<noteq> []
   \<and> sorted (rev (map date week_commits))
   \<and> date (hd week_commits) = Max (set (map date week_commits))
   \<and> date (last week_commits) = Min (set (map date week_commits))
   \<and> timedelta_days (date (hd week_commits)) (date (last week_commits)) = 7
   \<and> commit_frequency (analyze_activity (day 40) week_commits (demo_repo ''one'' 1 1 True))
       = fl (43 / 100)
   \<and> activity_score (analyze_activity (day 40) week_commits (demo_repo ''one'' 1 1 True)) = 18
   \<and> commit_frequency
        (analyze_activity (day 90) [\<lparr>date = day 80\<rparr>, \<lparr>date = day 0\<rparr>]
           (demo_repo ''one'' 1 1 True))
       = fl (3 / 100)
   \<and> activity_score
        (analyze_activity (day 90) [\<lparr>date = day 80\<rparr>, \<lparr>date = day 0\<rparr>]
           (demo_repo ''one'' 1 1 True))
       = 42"
proof -
  have ne: "week_commits \<noteq> []" by (simp add: week_commits_def)
  have so: "sorted (rev (map date week_commits))"
    by (simp add: week_commits_def day_def)
  have sp: "timedelta_days (date (hd week_commits)) (date (last week_commits)) = 7"
    by (simp add: week_commits_def day_def timedelta_days_def)
  have n: "length week_commits = 3" by (simp add: week_commits_def)
  have d: "timedelta_days (day 40) (date (hd week_commits)) = 33"
    by (simp add: week_commits_def day_def timedelta_days_def)
  have w: "date (hd week_commits) = Max (set (map date week_commits))
   \<and> date (last week_commits) = Min (set (map date week_commits))
   \<and> commit_frequency (analyze_activity (day 40) week_commits (demo_repo ''one'' 1 1 True))
       = fl (43 / 100)
   \<and> activity_score (analyze_activity (day 40) week_commits (demo_repo ''one'' 1 1 True)) = 18"
    using activity_analysis_formula [of "day 40" "demo_repo ''one'' 1 1 True" week_commits]
      ne so
    by (simp add: Let_def sp n d activity_floats boundary_floats ACTIVE_DAYS_THRESHOLD_def)
  have sp2: "timedelta_days (day 80) (day 0) = 80" "timedelta_days (day 90) (day 80) = 10"
    by (simp_all add: day_def timedelta_days_def)
  have s: "commit_frequency
        (analyze_activity (day 90) [\<lparr>date = day 80\<rparr>, \<lparr>date = day 0\<rparr>]
           (demo_repo ''one'' 1 1 True))
       = fl (3 / 100)
   \<and> activity_score
        (analyze_activity (day 90) [\<lparr>date = day 80\<rparr>, \<lparr>date = day 0\<rparr>]
           (demo_repo ''one'' 1 1 True))
       = 42"
    using activity_analysis_formula [of "day 90" "demo_repo ''one'' 1 1 True"
        "[\<lparr>date = day 80\<rparr>, \<lparr>date = day 0\<rparr>]"]
    by (simp add: Let_def sp2 activity_floats boundary_floats ACTIVE_DAYS_THRESHOLD_def)
  show ?thesis
    using ne so sp w s by simp
qed

section \<open>Recruiter decision and roadmap impact\<close>

text \<open>
  C7. The hire decision for a portfolio score: an overall score of at least 80 gives HIRE
  with confidence High; at least 60 and below 80 gives MAYBE with confidence Medium; below
  60 gives REJECT, with confidence High below 40 and Medium otherwise; each band has its
  fixed reasoning string. In particular, an overall score of 85 gives HIRE with High.
\<close>

theorem hire_decision_bands:
  "(80 \<le> PortfolioScore.overall ps \<longrightarrow>
      decision (determine_hire_decision ps) = str ''HIRE''
      \<and> confidence (determine_hire_decision ps) = str ''High''
      \<and> reasoning (determine_hire_decision ps) =
          str ''Strong portfolio with excellent documentation and consistent activity'')
   \<and> (60 \<le> PortfolioScore.overall ps \<and> PortfolioScore.overall ps < 80 \<longrightarrow>
      decision (determine_hire_decision ps) = str ''MAYBE''
      \<and> confidence (determine_hire_decision ps) = str ''Medium''
      \<and> reasoning (determine_hire_decision ps) =
          str ''Decent portfolio but needs improvement in key areas'')
   \<and> (PortfolioScore.overall ps < 60 \<longrightarrow>
      decision (determine_hire_decision ps) = str ''REJECT''
      \<and> confidence (determine_hire_decision ps) =
          (if PortfolioScore.overall ps < 40 then str ''High'' else str ''Medium'')
      \<and> reasoning (determine_hire_decision ps) =
          str ''Portfolio lacks critical elements expected from candidates'')
   \<and> (PortfolioScore.overall ps = 85 \<longrightarrow>
      decision (determine_hire_decision ps) = str ''HIRE''
      \<and> confidence (determine_hire_decision ps) = str ''High'')"
  by (simp add: determine_hire_decision_def Let_def)

text \<open>The statement at the overall scores 85, 65, 50 and 30.\<close>

theorem hire_decision_bands_witness:
  "80 \<le> PortfolioScore.overall (demo_score 85)
   \<and> decision (determine_hire_decision (demo_score 85)) = str ''HIRE''
   \<and> confidence (determine_hire_decision (demo_score 85)) = str ''High''
   \<and> decision (determine_hire_decision (demo_score 65)) = str ''MAYBE''
   \<and> confidence (determine_hire_decision (demo_score 65)) = str ''Medium''
   \<and> decision (determine_hire_decision (demo_score 50)) = str ''REJECT''
   \<and> confidence (determine_hire_decision (demo_score 50)) = str ''Medium''
   \<and> decision (determine_hire_decision (demo_score 30)) = str ''REJECT''
   \<and> confidence (determine_hire_decision (demo_score 30)) = str ''High''"
proof -
  have o: "PortfolioScore.overall (demo_score 85) = 85" "PortfolioScore.overall (demo_score 65) = 65"
    "PortfolioScore.overall (demo_score 50) = 50" "PortfolioScore.overall (demo_score 30) = 30"
    by (simp_all add: demo_score_def)
  show ?thesis
    using hire_decision_bands [of "demo_score 85"] hire_decision_bands [of "demo_score 65"]
      hire_decision_bands [of "demo_score 50"] hire_decision_bands [of "demo_score 30"]
    by (simp add: o)
qed

lemma estimate_impact_current:
  "current_score (estimate_impact ps) = PortfolioScore.overall ps"
  by (simp add: estimate_impact_def Let_def)

lemma estimate_impact_potential:
  "potential_score (estimate_impact ps) =
     (if PortfolioScore.overall ps < 50 then min (fadd (PortfolioScore.overall ps) 30) 100
      else if PortfolioScore.overall ps < 70 then min (fadd (PortfolioScore.overall ps) 20) 100
      else min (fadd (PortfolioScore.overall ps) 10) 100)"
  by (simp add: estimate_impact_def Let_def)

lemma estimate_impact_improvement:
  "improvement (estimate_impact ps) =
     py_round2 (fsub (potential_score (estimate_impact ps)) (current_score (estimate_impact ps)))"
  by (simp add: estimate_impact_def Let_def)

lemma round_half_even_near:
  assumes "\<bar>x - of_int n\<bar> < 1 / 2"
  shows "round_half_even x = n"
proof -
  have "\<bar>of_int (round_half_even x) - x\<bar> \<le> 1 / 2" by (rule round_half_even_err)
  with assms have "\<bar>(of_int (round_half_even x) :: rat) - of_int n\<bar> < 1" by linarith
  then have "\<bar>(of_int (round_half_even x - n) :: rat)\<bar> < of_int 1" by simp
  then have "\<bar>round_half_even x - n\<bar> < 1"
    by (simp only: of_int_abs [symmetric] of_int_less_iff)
  then show ?thesis by simp
qed

lemma py_round2_near:
  assumes "\<bar>x - of_int a\<bar> < 1 / 200" "\<bar>a\<bar> < 2 ^ 53"
  shows "py_round2 x = of_int a"
proof -
  have "\<bar>x * 100 - of_int (a * 100)\<bar> = \<bar>x - of_int a\<bar> * 100"
    by (simp add: abs_if algebra_simps)
  with assms(1) have "\<bar>x * 100 - of_int (a * 100)\<bar> < 1 / 2" by simp
  then have "round_half_even (x * 100) = a * 100" by (rule round_half_even_near)
  then have "round2 x = of_int a" by (simp add: round2_def)
  then show ?thesis using assms(2) by (simp add: py_round2_def fl_of_int)
qed

lemma fsub_fadd_near:
  assumes "0 \<le> c" "c \<le> 100" "0 \<le> a" "a \<le> 30"
  shows "\<bar>fsub (fadd c a) c - a\<bar> < 1 / 200"
proof -
  define p where "p = fl (c + a)"
  define d where "d = p - c"
  have "\<bar>p - (c + a)\<bar> \<le> \<bar>c + a\<bar> / 2 ^ 53" unfolding p_def by (rule fl_err)
  moreover have "\<bar>c + a\<bar> / 2 ^ 53 \<le> 130 / 2 ^ 53"
    using assms by (intro divide_right_mono) simp_all
  ultimately have 1: "\<bar>d - a\<bar> \<le> 130 / 2 ^ 53" by (simp add: d_def algebra_simps)
  then have 2: "\<bar>d\<bar> \<le> 31" using assms by (simp add: abs_if split: if_splits)
  have "\<bar>fl d - d\<bar> \<le> \<bar>d\<bar> / 2 ^ 53" by (rule fl_err)
  moreover have "\<bar>d\<bar> / 2 ^ 53 \<le> 31 / 2 ^ 53"
    using 2 by (intro divide_right_mono) simp_all
  ultimately have 3: "\<bar>fl d - d\<bar> \<le> 31 / 2 ^ 53" by simp
  have "\<bar>fl d - a\<bar> \<le> 130 / 2 ^ 53 + 31 / 2 ^ 53" using 1 3 by linarith
  then have "\<bar>fl d - a\<bar> < 1 / 200" by simp
  then show ?thesis by (simp add: fsub_def fadd_def d_def p_def)
qed

lemma improvement_uncapped:
  assumes "0 \<le> c" "c \<le> 100" "0 \<le> a" "a \<le> 30"
  shows "py_round2 (fsub (fadd c (of_int a)) c) = of_int a"
proof -
  have "\<bar>fsub (fadd c (of_int a)) c - of_int a\<bar> < 1 / 200"
    using assms by (intro fsub_fadd_near) simp_all
  moreover have "\<bar>a\<bar> < 2 ^ 53" using assms by simp
  ultimately show ?thesis by (rule py_round2_near)
qed

lemma fadd_below_100:
  assumes "0 \<le> c" "0 \<le> a" "c + a \<le> 100"
  shows "min (fadd c a) 100 = fadd c a"
proof -
  have "0 \<le> c + a" using assms by simp
  then have "fl (c + a) \<le> fl 100" using assms(3) by (rule fl_mono)
  then show ?thesis by (simp add: fadd_def fl_numerals)
qed

lemma fadd_above_100:
  assumes "100 \<le> c + a"
  shows "min (fadd c a) 100 = 100"
proof -
  have "fl 100 \<le> fl (c + a)" using assms by (intro fl_mono) simp_all
  then show ?thesis by (simp add: fadd_def fl_numerals)
qed

lemma improvement_err:
  assumes "0 \<le> c" "c \<le> 100" "0 \<le> p" "p \<le> 100"
  shows "\<bar>py_round2 (fsub p c) - (p - c)\<bar> \<le> 1 / 200 + 1 / 2 ^ 45"
proof -
  define d where "d = p - c"
  define r where "r = round2 (fl d)"
  have d: "\<bar>d\<bar> \<le> 100" using assms by (simp add: d_def abs_if)
  have "\<bar>fl d - d\<bar> \<le> \<bar>d\<bar> / 2 ^ 53" by (rule fl_err)
  moreover have "\<bar>d\<bar> / 2 ^ 53 \<le> 100 / 2 ^ 53"
    using d by (intro divide_right_mono) simp_all
  ultimately have 1: "\<bar>fl d - d\<bar> \<le> 100 / 2 ^ 53" by simp
  have 2: "\<bar>r - fl d\<bar> \<le> 1 / 200" unfolding r_def by (rule round2_err)
  have "\<bar>r\<bar> \<le> 101" using d 1 2 by (simp add: abs_if split: if_splits)
  then have "\<bar>r\<bar> / 2 ^ 53 \<le> 101 / 2 ^ 53" by (intro divide_right_mono) simp_all
  moreover have "\<bar>fl r - r\<bar> \<le> \<bar>r\<bar> / 2 ^ 53" by (rule fl_err)
  ultimately have 3: "\<bar>fl r - r\<bar> \<le> 101 / 2 ^ 53" by simp
  have "\<bar>fl r - d\<bar> \<le> 1 / 200 + (100 / 2 ^ 53 + 101 / 2 ^ 53)" using 1 2 3 by linarith
  then have "\<bar>fl r - d\<bar> \<le> 1 / 200 + 1 / 2 ^ 45" by simp
  then show ?thesis by (simp add: py_round2_def fsub_def r_def d_def)
qed

lemma potential_range:
  assumes "0 \<le> PortfolioScore.overall ps"
  shows "0 \<le> potential_score (estimate_impact ps) \<and> potential_score (estimate_impact ps) \<le> 100"
proof -
  have "0 \<le> fadd (PortfolioScore.overall ps) a" if "0 \<le> a" for a
    unfolding fadd_def using assms that by (intro fl_nonneg) simp
  then show ?thesis by (simp add: estimate_impact_potential)
qed

text \<open>
  C8 (amended). For every portfolio score, the estimated impact reports the overall score
  unchanged as the current score; the potential score is the float sum of the current
  score and 30 (below 50), 20 (from 50 and below 70) or 10 (from 70), capped at 100; and
  the reported improvement is the float difference of the potential and the current score
  rounded to two decimals. For a current score from 0 to 100 the improvement is within
  0.005 and a rounding error of potential minus current; it is exactly 30 for a current
  score from 0 and below 50, exactly 20 from 50 and below 70, exactly 10 from 70 to 90, and
  from 90 the potential score is 100.
\<close>

theorem estimate_impact_rounded:
  "current_score (estimate_impact ps) = PortfolioScore.overall ps
   \<and> (PortfolioScore.overall ps < 50 \<longrightarrow>
        potential_score (estimate_impact ps) = min (fadd (PortfolioScore.overall ps) 30) 100)
   \<and> (50 \<le> PortfolioScore.overall ps \<and> PortfolioScore.overall ps < 70 \<longrightarrow>
        potential_score (estimate_impact ps) = min (fadd (PortfolioScore.overall ps) 20) 100)
   \<and> (70 \<le> PortfolioScore.overall ps \<longrightarrow>
        potential_score (estimate_impact ps) = min (fadd (PortfolioScore.overall ps) 10) 100)
   \<and> improvement (estimate_impact ps) =
        py_round2 (fsub (potential_score (estimate_impact ps))
                     (current_score (estimate_impact ps)))
   \<and> (0 \<le> PortfolioScore.overall ps \<and> PortfolioScore.overall ps \<le> 100 \<longrightarrow>
        \<bar>improvement (estimate_impact ps)
          - (potential_score (estimate_impact ps) - current_score (estimate_impact ps))\<bar>
        \<le> 1 / 200 + 1 / 2 ^ 45)
   \<and> (0 \<le> PortfolioScore.overall ps \<and> PortfolioScore.overall ps < 50 \<longrightarrow>
        potential_score (estimate_impact ps) = fadd (PortfolioScore.overall ps) 30
        \<and> improvement (estimate_impact ps) = 30)
   \<and> (50 \<le> PortfolioScore.overall ps \<and> PortfolioScore.overall ps < 70 \<longrightarrow>
        potential_score (estimate_impact ps) = fadd (PortfolioScore.overall ps) 20
        \<and> improvement (estimate_impact ps) = 20)
   \<and> (70 \<le> PortfolioScore.overall ps \<and> PortfolioScore.overall ps \<le> 90 \<longrightarrow>
        potential_score (estimate_impact ps) = fadd (PortfolioScore.overall ps) 10
        \<and> improvement (estimate_impact ps) = 10)
   \<and> (90 \<le> PortfolioScore.overall ps \<longrightarrow> potential_score (estimate_impact ps) = 100)"
proof -
  define c where "c = PortfolioScore.overall ps"
  have cur: "current_score (estimate_impact ps) = c"
    by (simp add: c_def estimate_impact_current)
  have pot: "potential_score (estimate_impact ps) =
     (if c < 50 then min (fadd c 30) 100
      else if c < 70 then min (fadd c 20) 100 else min (fadd c 10) 100)"
    by (simp add: c_def estimate_impact_potential)
  have imp: "improvement (estimate_impact ps) =
      py_round2 (fsub (potential_score (estimate_impact ps)) c)"
    by (simp add: c_def estimate_impact_improvement estimate_impact_current)
  have err: "\<bar>improvement (estimate_impact ps) - (potential_score (estimate_impact ps) - c)\<bar>
        \<le> 1 / 200 + 1 / 2 ^ 45" if "0 \<le> c" "c \<le> 100"
    unfolding imp using that potential_range [of ps]
    by (intro improvement_err) (simp_all add: c_def)
  have b30: "potential_score (estimate_impact ps) = fadd c 30
      \<and> improvement (estimate_impact ps) = 30" if "0 \<le> c" "c < 50"
  proof -
    have p: "potential_score (estimate_impact ps) = fadd c 30"
      using that fadd_below_100 [of c 30] by (simp add: pot)
    have "py_round2 (fsub (fadd c (of_int 30)) c) = of_int 30"
      using that by (intro improvement_uncapped) simp_all
    then show ?thesis by (simp add: imp p)
  qed
  have b20: "potential_score (estimate_impact ps) = fadd c 20
      \<and> improvement (estimate_impact ps) = 20" if "50 \<le> c" "c < 70"
  proof -
    have p: "potential_score (estimate_impact ps) = fadd c 20"
      using that fadd_below_100 [of c 20] by (simp add: pot)
    have "py_round2 (fsub (fadd c (of_int 20)) c) = of_int 20"
      using that by (intro improvement_uncapped) simp_all
    then show ?thesis by (simp add: imp p)
  qed
  have b10: "potential_score (estimate_impact ps) = fadd c 10
      \<and> improvement (estimate_impact ps) = 10" if "70 \<le> c" "c \<le> 90"
  proof -
    have p: "potential_score (estimate_impact ps) = fadd c 10"
      using that fadd_below_100 [of c 10] by (simp add: pot)
    have "py_round2 (fsub (fadd c (of_int 10)) c) = of_int 10"
      using that by (intro improvement_uncapped) simp_all
    then show ?thesis by (simp add: imp p)
  qed
  have cap: "potential_score (estimate_impact ps) = 100" if "90 \<le> c"
    using that fadd_above_100 [of c 10] by (simp add: pot)
  have g1: "c < 50 \<Longrightarrow> potential_score (estimate_impact ps) = min (fadd c 30) 100"
    and g2: "50 \<le> c \<and> c < 70 \<Longrightarrow>
      potential_score (estimate_impact ps) = min (fadd c 20) 100"
    and g3: "70 \<le> c \<Longrightarrow> potential_score (estimate_impact ps) = min (fadd c 10) 100"
    by (simp_all add: pot)
  show ?thesis
    unfolding c_def [symmetric] cur
    using g1 g2 g3 imp err b30 b20 b10 cap by blast
qed

lemma overall_empty: "PortfolioScore.overall (calculate_portfolio_score u []) = 0"
proof -
  have "weighted_overall u [] = 0"
    by (simp add: weighted_overall_eq calculate_documentation_score_def
        calculate_code_quality_score_def calculate_consistency_score_def
        calculate_impact_score_def calculate_technical_depth_score_def
        fmul_def fadd_def float_of_int_def fl_0)
  moreover have "py_round2 0 = 0" using py_round2_of_int [of 0] by simp
  ultimately show ?thesis by (simp add: overall_calculate)
qed

text \<open>
  C8 (counterexample). The three example repositories of a user with four recent events
  have the overall score 60.24. The potential score is the float sum
  80.24000000000001, the reported improvement is 20, and the potential minus the current
  score is not 20.
\<close>

theorem improvement_counterexample:
  "current_score (estimate_impact
      (calculate_portfolio_score busy_user (analyze_repositories boundary_inputs)))
     = fl (6024 / 100)
   \<and> potential_score (estimate_impact
      (calculate_portfolio_score busy_user (analyze_repositories boundary_inputs)))
     = fl (8024000000000001 / 100000000000000)
   \<and> improvement (estimate_impact
      (calculate_portfolio_score busy_user (analyze_repositories boundary_inputs)))
     = 20
   \<and> potential_score (estimate_impact
      (calculate_portfolio_score busy_user (analyze_repositories boundary_inputs)))
     - current_score (estimate_impact
      (calculate_portfolio_score busy_user (analyze_repositories boundary_inputs)))
     = 20 + 1 / 140737488355328
   \<and> improvement (estimate_impact
      (calculate_portfolio_score busy_user (analyze_repositories boundary_inputs)))
     \<noteq> potential_score (estimate_impact
      (calculate_portfolio_score busy_user (analyze_repositories boundary_inputs)))
     - current_score (estimate_impact
      (calculate_portfolio_score busy_user (analyze_repositories boundary_inputs)))"
  by (simp add: estimate_impact_def Let_def boundary_overall boundary_floats)

text \<open>
  The statement at the empty portfolio (overall score 0), at the three example
  repositories (overall score 60) and at the overall scores 85 and 95.
\<close>

theorem estimate_impact_rounded_witness:
  "PortfolioScore.overall (calculate_portfolio_score demo_user []) = 0
   \<and> potential_score (estimate_impact (calculate_portfolio_score demo_user [])) = 30
   \<and> improvement (estimate_impact (calculate_portfolio_score demo_user [])) = 30
   \<and> current_score (estimate_impact
        (calculate_portfolio_score demo_user (analyze_repositories boundary_inputs))) = 60
   \<and> potential_score (estimate_impact
        (calculate_portfolio_score demo_user (analyze_repositories boundary_inputs))) = 80
   \<and> improvement (estimate_impact
        (calculate_portfolio_score demo_user (analyze_repositories boundary_inputs))) = 20
   \<and> potential_score (estimate_impact (demo_score 85)) = 95
   \<and> improvement (estimate_impact (demo_score 85)) = 10
   \<and> potential_score (estimate_impact (demo_score 95)) = 100
   \<and> improvement (estimate_impact (demo_score 95)) = 5"
proof -
  have o: "PortfolioScore.overall (demo_score 85) = 85"
    "PortfolioScore.overall (demo_score 95) = 95"
    by (simp_all add: demo_score_def)
  have f: "fadd 0 30 = 30" "fadd 60 20 = 80" "fadd 85 10 = 95" "fsub 100 95 = 5"
    "py_round2 5 = 5"
    using fl_of_int [of 30] fl_of_int [of 80] fl_of_int [of 95] fl_of_int [of 5]
      py_round2_of_int [of 5]
    by (simp_all add: fadd_def fsub_def)
  have 1: "potential_score (estimate_impact (calculate_portfolio_score demo_user [])) = 30
   \<and> improvement (estimate_impact (calculate_portfolio_score demo_user [])) = 30"
  proof -
    let ?ps = "calculate_portfolio_score demo_user []"
    from estimate_impact_rounded [of ?ps]
    have "0 \<le> PortfolioScore.overall ?ps \<and> PortfolioScore.overall ?ps < 50 \<longrightarrow>
        potential_score (estimate_impact ?ps) = fadd (PortfolioScore.overall ?ps) 30
        \<and> improvement (estimate_impact ?ps) = 30"
      by blast
    then show ?thesis by (simp add: overall_empty f)
  qed
  have 2: "current_score (estimate_impact
        (calculate_portfolio_score demo_user (analyze_repositories boundary_inputs))) = 60
   \<and> potential_score (estimate_impact
        (calculate_portfolio_score demo_user (analyze_repositories boundary_inputs))) = 80
   \<and> improvement (estimate_impact
        (calculate_portfolio_score demo_user (analyze_repositories boundary_inputs))) = 20"
  proof -
    let ?ps = "calculate_portfolio_score demo_user (analyze_repositories boundary_inputs)"
    from estimate_impact_rounded [of ?ps]
    have "current_score (estimate_impact ?ps) = PortfolioScore.overall ?ps
      \<and> (50 \<le> PortfolioScore.overall ?ps \<and> PortfolioScore.overall ?ps < 70 \<longrightarrow>
        potential_score (estimate_impact ?ps) = fadd (PortfolioScore.overall ?ps) 20
        \<and> improvement (estimate_impact ?ps) = 20)"
      by blast
    then show ?thesis by (simp add: boundary_overall f)
  qed
  have 3: "potential_score (estimate_impact (demo_score 85)) = 95
   \<and> improvement (estimate_impact (demo_score 85)) = 10"
  proof -
    let ?ps = "demo_score 85"
    from estimate_impact_rounded [of ?ps]
    have "70 \<le> PortfolioScore.overall ?ps \<and> PortfolioScore.overall ?ps \<le> 90 \<longrightarrow>
        potential_score (estimate_impact ?ps) = fadd (PortfolioScore.overall ?ps) 10
        \<and> improvement (estimate_impact ?ps) = 10"
      by blast
    then show ?thesis by (simp add: o f)
  qed
  have 4: "potential_score (estimate_impact (demo_score 95)) = 100
   \<and> improvement (estimate_impact (demo_score 95)) = 5"
  proof -
    let ?ps = "demo_score 95"
    from estimate_impact_rounded [of ?ps]
    have "current_score (estimate_impact ?ps) = PortfolioScore.overall ?ps
      \<and> improvement (estimate_impact ?ps) =
        py_round2 (fsub (potential_score (estimate_impact ?ps))
                     (current_score (estimate_impact ?ps)))
      \<and> (90 \<le> PortfolioScore.overall ?ps \<longrightarrow> potential_score (estimate_impact ?ps) = 100)"
      by blast
    then show ?thesis by (simp add: o f)
  qed
  show ?thesis
    using overall_empty [of demo_user] 1 2 3 4 by simp
qed

end
